theory Spec2Isabelle
  imports Main "HOL-Library.Word" "HOL-Library.Code_Target_Numeral"
begin

unbundle bit_operations_syntax

section \<open>Values and byte-addressed memory\<close>

text \<open>
  The Java primitive types of the header are fixed-width two's-complement integers.
  Memory is byte addressed; the address width is a type parameter, 32 bits in the
  narrow-register build (\<^verbatim>\<open>#else // !AMD64\<close>) and 64 bits in the wide one
  (\<^verbatim>\<open>#ifdef AMD64\<close>). x86 is little endian: the byte at the lowest address is
  the least significant one.
\<close>

type_synonym jbyte = "8 word"
type_synonym jshort = "16 word"
type_synonym jint = "32 word"
type_synonym jlong = "64 word"

type_synonym 'a memory = "'a word \<Rightarrow> 8 word"

text \<open>The object representation of a value: its first \<open>n\<close> bytes, least significant first.\<close>

fun le_bytes :: "nat \<Rightarrow> 'a::len word \<Rightarrow> 8 word list" where
  "le_bytes 0 w = []"
| "le_bytes (Suc n) w = ucast w # le_bytes n (drop_bit 8 w)"

fun le_word :: "8 word list \<Rightarrow> 'a::len word" where
  "le_word [] = 0"
| "le_word (b # bs) = ucast b OR push_bit 8 (le_word bs)"

fun read_bytes :: "'a::len memory \<Rightarrow> 'a word \<Rightarrow> nat \<Rightarrow> 8 word list" where
  "read_bytes m p 0 = []"
| "read_bytes m p (Suc n) = m p # read_bytes m (p + 1) n"

fun write_bytes :: "'a::len memory \<Rightarrow> 'a word \<Rightarrow> 8 word list \<Rightarrow> 'a memory" where
  "write_bytes m p [] = m"
| "write_bytes m p (b # bs) = write_bytes (m(p := b)) (p + 1) bs"

text \<open>The addresses of the \<open>n\<close>-byte slot that starts at \<open>p\<close>.\<close>

fun slot :: "'a::len word \<Rightarrow> nat \<Rightarrow> 'a word list" where
  "slot p 0 = []"
| "slot p (Suc n) = p # slot (p + 1) n"

definition in_slot :: "'a::len word \<Rightarrow> 'a word \<Rightarrow> nat \<Rightarrow> bool" where
  "in_slot a p n = (a \<in> set (slot p n))"

definition disjoint_slots :: "'a::len word \<Rightarrow> nat \<Rightarrow> 'a word \<Rightarrow> nat \<Rightarrow> bool" where
  "disjoint_slots p n q k = list_all (\<lambda>a. \<not> in_slot a q k) (slot p n)"

text \<open>Typed accesses: \<^verbatim>\<open>*p\<close> read or assigned at a given width.\<close>

definition load8 :: "'a::len memory \<Rightarrow> 'a word \<Rightarrow> jbyte" where
  "load8 m p = le_word (read_bytes m p 1)"

definition load16 :: "'a::len memory \<Rightarrow> 'a word \<Rightarrow> jshort" where
  "load16 m p = le_word (read_bytes m p 2)"

definition load32 :: "'a::len memory \<Rightarrow> 'a word \<Rightarrow> jint" where
  "load32 m p = le_word (read_bytes m p 4)"

definition load64 :: "'a::len memory \<Rightarrow> 'a word \<Rightarrow> jlong" where
  "load64 m p = le_word (read_bytes m p 8)"

definition store8 :: "'a::len memory \<Rightarrow> 'a word \<Rightarrow> jbyte \<Rightarrow> 'a memory" where
  "store8 m p v = write_bytes m p (le_bytes 1 v)"

definition store16 :: "'a::len memory \<Rightarrow> 'a word \<Rightarrow> jshort \<Rightarrow> 'a memory" where
  "store16 m p v = write_bytes m p (le_bytes 2 v)"

definition store32 :: "'a::len memory \<Rightarrow> 'a word \<Rightarrow> jint \<Rightarrow> 'a memory" where
  "store32 m p v = write_bytes m p (le_bytes 4 v)"

definition store64 :: "'a::len memory \<Rightarrow> 'a word \<Rightarrow> jlong \<Rightarrow> 'a memory" where
  "store64 m p v = write_bytes m p (le_bytes 8 v)"


text \<open>Splitting a 64-bit value into 32-bit halves and joining them again.\<close>

definition lo32 :: "jlong \<Rightarrow> jint" where
  "lo32 v = ucast v"

definition hi32 :: "jlong \<Rightarrow> jint" where
  "hi32 v = ucast (drop_bit 32 v)"

definition join64 :: "jint \<Rightarrow> jint \<Rightarrow> jlong" where
  "join64 hi lo = push_bit 32 (ucast hi) OR ucast lo"

section \<open>The IA-32 machine of the inline assembly\<close>

text \<open>
  The narrow-register half of the header is written in inline assembly. Its semantics
  is given by a small machine: the general registers the blocks name, the stack
  pointer used by \<^verbatim>\<open>push\<close> and \<^verbatim>\<open>pop\<close>, byte-addressed memory, and the x87
  register stack with the rounding-control field of its control word. Status flags are
  left out: no instruction of the header reads them. Numeric exceptions are taken to be
  masked, the state in which the processor answers an invalid operation with the
  indefinite value.
\<close>

datatype reg = EAX | EBX | ECX | EDX | EDI | ESP

datatype rounding = RC_NEAREST | RC_DOWN | RC_UP | RC_CHOP

text \<open>
  A double-extended value (80 bits): sign, biased 15-bit exponent, and a 64-bit
  significand whose top bit is the explicit integer bit. A finite value is
  \<open>\<plusminus> fp_sig * 2 ^ (fp_exp - 16383 - 63)\<close>.
\<close>

record fpext =
  fp_sign :: bool
  fp_exp :: nat
  fp_sig :: "64 word"

record x86 =
  regs :: "reg \<Rightarrow> 32 word"
  mem :: "32 memory"
  fpu :: "fpext list"
  fpu_rc :: rounding

definition set_reg :: "reg \<Rightarrow> 32 word \<Rightarrow> x86 \<Rightarrow> x86" where
  "set_reg r v s = s\<lparr>regs := (regs s)(r := v)\<rparr>"

text \<open>The low byte of a register (\<^verbatim>\<open>al\<close>, \<^verbatim>\<open>cl\<close>); writing it keeps the upper 24 bits.\<close>

definition reg8 :: "reg \<Rightarrow> x86 \<Rightarrow> 8 word" where
  "reg8 r s = ucast (regs s r)"

definition set_reg8 :: "reg \<Rightarrow> 8 word \<Rightarrow> x86 \<Rightarrow> x86" where
  "set_reg8 r b s = set_reg r ((regs s r AND NOT 255) OR ucast b) s"

subsection \<open>Integer instructions\<close>

text \<open>\<^verbatim>\<open>mov r32, var\<close>: the value of a 4-byte C variable or parameter.\<close>

definition mov :: "reg \<Rightarrow> 32 word \<Rightarrow> x86 \<Rightarrow> x86" where
  "mov r v s = set_reg r v s"

text \<open>\<^verbatim>\<open>mov r8, var\<close>: the value of a 1-byte C variable or parameter.\<close>

definition mov8 :: "reg \<Rightarrow> 8 word \<Rightarrow> x86 \<Rightarrow> x86" where
  "mov8 r v s = set_reg8 r v s"

text \<open>\<^verbatim>\<open>mov r32, r32\<close>.\<close>

definition mov_rr :: "reg \<Rightarrow> reg \<Rightarrow> x86 \<Rightarrow> x86" where
  "mov_rr d r s = set_reg d (regs s r) s"

text \<open>\<^verbatim>\<open>add r32, r32\<close>.\<close>

definition add_rr :: "reg \<Rightarrow> reg \<Rightarrow> x86 \<Rightarrow> x86" where
  "add_rr d r s = set_reg d (regs s d + regs s r) s"

text \<open>
  \<^verbatim>\<open>lock xadd dword ptr [b], r\<close>: the sum goes to memory, the old memory value to
  the register, in one locked step.
\<close>

definition lock_xadd :: "reg \<Rightarrow> reg \<Rightarrow> x86 \<Rightarrow> x86" where
  "lock_xadd b r s =
     (let a = regs s b; old = load32 (mem s) a
      in set_reg r old (s\<lparr>mem := store32 (mem s) a (old + regs s r)\<rparr>))"

text \<open>\<^verbatim>\<open>lock add dword ptr [b], imm\<close> and \<^verbatim>\<open>lock sub dword ptr [b], imm\<close>.\<close>

definition lock_add :: "reg \<Rightarrow> 32 word \<Rightarrow> x86 \<Rightarrow> x86" where
  "lock_add b imm s =
     (let a = regs s b in s\<lparr>mem := store32 (mem s) a (load32 (mem s) a + imm)\<rparr>)"

definition lock_sub :: "reg \<Rightarrow> 32 word \<Rightarrow> x86 \<Rightarrow> x86" where
  "lock_sub b imm s =
     (let a = regs s b in s\<lparr>mem := store32 (mem s) a (load32 (mem s) a - imm)\<rparr>)"

text \<open>\<^verbatim>\<open>xchg r, dword ptr [b]\<close>: register and memory swap; the bus lock is implicit.\<close>

definition xchg_rm :: "reg \<Rightarrow> reg \<Rightarrow> x86 \<Rightarrow> x86" where
  "xchg_rm r b s =
     (let a = regs s b; old = load32 (mem s) a
      in set_reg r old (s\<lparr>mem := store32 (mem s) a (regs s r)\<rparr>))"

text \<open>
  \<^verbatim>\<open>lock cmpxchg byte ptr [b], r8\<close>: \<^verbatim>\<open>al\<close> is compared with the byte in memory;
  when equal the byte of \<open>r\<close> is stored, otherwise \<^verbatim>\<open>al\<close> receives the memory byte.
\<close>

definition lock_cmpxchg8 :: "reg \<Rightarrow> reg \<Rightarrow> x86 \<Rightarrow> x86" where
  "lock_cmpxchg8 b r s =
     (let a = regs s b; old = load8 (mem s) a
      in if reg8 EAX s = old then s\<lparr>mem := store8 (mem s) a (reg8 r s)\<rparr>
         else set_reg8 EAX old s)"

text \<open>\<^verbatim>\<open>lock cmpxchg dword ptr [b], r32\<close>: the same on 4 bytes, with \<^verbatim>\<open>eax\<close>.\<close>

definition lock_cmpxchg32 :: "reg \<Rightarrow> reg \<Rightarrow> x86 \<Rightarrow> x86" where
  "lock_cmpxchg32 b r s =
     (let a = regs s b; old = load32 (mem s) a
      in if regs s EAX = old then s\<lparr>mem := store32 (mem s) a (regs s r)\<rparr>
         else set_reg EAX old s)"

text \<open>
  \<^verbatim>\<open>lock cmpxchg8b qword ptr [b]\<close>: \<^verbatim>\<open>edx:eax\<close> is compared with the 8 bytes in
  memory; when equal \<^verbatim>\<open>ecx:ebx\<close> is stored, otherwise \<^verbatim>\<open>edx:eax\<close> receives the
  memory value.
\<close>

definition lock_cmpxchg8b :: "reg \<Rightarrow> x86 \<Rightarrow> x86" where
  "lock_cmpxchg8b b s =
     (let a = regs s b; old = load64 (mem s) a
      in if join64 (regs s EDX) (regs s EAX) = old
         then s\<lparr>mem := store64 (mem s) a (join64 (regs s ECX) (regs s EBX))\<rparr>
         else set_reg EAX (lo32 old) (set_reg EDX (hi32 old) s))"

text \<open>\<^verbatim>\<open>push r32\<close> and \<^verbatim>\<open>pop r32\<close> on the stack that grows downwards from \<^verbatim>\<open>esp\<close>.\<close>

definition push :: "reg \<Rightarrow> x86 \<Rightarrow> x86" where
  "push r s =
     (let sp = regs s ESP - 4
      in set_reg ESP sp (s\<lparr>mem := store32 (mem s) sp (regs s r)\<rparr>))"

definition pop :: "reg \<Rightarrow> x86 \<Rightarrow> x86" where
  "pop r s =
     (let sp = regs s ESP
      in set_reg ESP (sp + 4) (set_reg r (load32 (mem s) sp) s))"

subsection \<open>The x87 integer load and store\<close>

text \<open>The position of the highest set bit of a positive number.\<close>

fun top_bit :: "nat \<Rightarrow> nat" where
  "top_bit n = (if n < 2 then 0 else Suc (top_bit (n div 2)))"

declare top_bit.simps [simp del]

text \<open>
  \<^verbatim>\<open>fild\<close> converts a signed 64-bit integer to double-extended: zero is all zeros,
  any other value is normalised so that the integer bit of the significand is set.
\<close>

definition int64_to_fpext :: "jlong \<Rightarrow> fpext" where
  "int64_to_fpext x =
     (if x = 0 then \<lparr>fp_sign = False, fp_exp = 0, fp_sig = 0\<rparr>
      else let neg = (sint x < 0);
               mag = (if neg then - x else x);
               k = top_bit (unat mag)
           in \<lparr>fp_sign = neg, fp_exp = 16383 + k, fp_sig = push_bit (63 - k) mag\<rparr>)"

text \<open>The indefinite values the x87 produces for a masked invalid operation.\<close>

definition integer_indefinite :: jlong where
  "integer_indefinite = 0x8000000000000000"

definition real_indefinite :: fpext where
  "real_indefinite = \<lparr>fp_sign = True, fp_exp = 32767, fp_sig = 0xC000000000000000\<rparr>"

text \<open>
  Rounding the magnitude \<open>q + r / d\<close> (with \<open>r < d\<close>) of a value to an integer under
  the four rounding-control settings.
\<close>

definition round_magnitude :: "rounding \<Rightarrow> bool \<Rightarrow> nat \<Rightarrow> nat \<Rightarrow> nat \<Rightarrow> nat" where
  "round_magnitude rc neg q r d =
     (case rc of
        RC_NEAREST \<Rightarrow> if d < 2 * r \<or> (2 * r = d \<and> odd q) then q + 1 else q
      | RC_DOWN \<Rightarrow> if neg \<and> r \<noteq> 0 then q + 1 else q
      | RC_UP \<Rightarrow> if \<not> neg \<and> r \<noteq> 0 then q + 1 else q
      | RC_CHOP \<Rightarrow> q)"

text \<open>
  \<^verbatim>\<open>fistp\<close> converts double-extended to a signed 64-bit integer, rounding as the
  control word says. A value that does not fit, an infinity, a NaN or an unsupported
  encoding gives the integer indefinite.
\<close>

definition fpext_to_int64 :: "rounding \<Rightarrow> fpext \<Rightarrow> jlong" where
  "fpext_to_int64 rc f =
     (if 16383 + 63 < fp_exp f \<or> (fp_exp f \<noteq> 0 \<and> \<not> bit (fp_sig f) 63)
      then integer_indefinite
      else if fp_sig f = 0 then 0
      else let d = 2 ^ (16383 + 63 - max 1 (fp_exp f));
               n = round_magnitude rc (fp_sign f)
                     (unat (fp_sig f) div d) (unat (fp_sig f) mod d) d
           in if fp_sign f
              then (if n \<le> 2 ^ 63 then - of_nat n else integer_indefinite)
              else (if n < 2 ^ 63 then of_nat n else integer_indefinite))"

text \<open>
  \<^verbatim>\<open>fild qword ptr [b]\<close> pushes the converted integer on the register stack. The
  stack has eight registers; a push on a full stack is a stack fault that leaves the
  real indefinite in the new top.
\<close>

definition fild :: "reg \<Rightarrow> x86 \<Rightarrow> x86" where
  "fild b s =
     (let v = int64_to_fpext (load64 (mem s) (regs s b))
      in s\<lparr>fpu := (if length (fpu s) < 8 then v # fpu s
                   else real_indefinite # butlast (fpu s))\<rparr>)"

text \<open>
  \<^verbatim>\<open>fistp qword ptr [b]\<close> stores the top of the stack as an integer and pops it; on
  an empty stack it stores the integer indefinite.
\<close>

definition fistp :: "reg \<Rightarrow> x86 \<Rightarrow> x86" where
  "fistp b s =
     (case fpu s of
        [] \<Rightarrow> s\<lparr>mem := store64 (mem s) (regs s b) integer_indefinite\<rparr>
      | f # st \<Rightarrow> s\<lparr>mem := store64 (mem s) (regs s b) (fpext_to_int64 (fpu_rc s) f),
                    fpu := st\<rparr>)"

text \<open>An \<^verbatim>\<open>__asm { ... }\<close> block runs its instructions in order.\<close>

definition asm :: "(x86 \<Rightarrow> x86) list \<Rightarrow> x86 \<Rightarrow> x86" where
  "asm block s = fold (\<lambda>i. i) block s"

text \<open>
  The Microsoft calling convention returns a 1-byte result in \<^verbatim>\<open>al\<close>, a 4-byte one
  in \<^verbatim>\<open>eax\<close> and an 8-byte one in \<^verbatim>\<open>edx:eax\<close>; the functions of the header that
  end in an assembly block without a \<^verbatim>\<open>return\<close> rely on it (warning 4035 is
  switched off for that reason).
\<close>

definition ret8 :: "x86 \<Rightarrow> jbyte" where
  "ret8 s = reg8 EAX s"

definition ret32 :: "x86 \<Rightarrow> jint" where
  "ret32 s = regs s EAX"

definition ret64 :: "x86 \<Rightarrow> jlong" where
  "ret64 s = join64 (regs s EDX) (regs s EAX)"


section \<open>Stores common to both builds\<close>

text \<open>
  \<^verbatim>\<open>inline void Atomic::store(jbyte store_value, jbyte* dest) { *dest = store_value; }\<close>
  and its siblings for \<^verbatim>\<open>jshort\<close>, \<^verbatim>\<open>jint\<close>, \<^verbatim>\<open>intptr_t\<close> and \<^verbatim>\<open>void*\<close>. The
  overloads on \<^verbatim>\<open>volatile\<close> destinations have the same bodies. A pointer is as
  wide as an address.
\<close>

definition Atomic_store_jbyte :: "jbyte \<Rightarrow> 'a::len word \<Rightarrow> 'a memory \<Rightarrow> 'a memory" where
  "Atomic_store_jbyte store_value dest m = store8 m dest store_value"

definition Atomic_store_jshort :: "jshort \<Rightarrow> 'a::len word \<Rightarrow> 'a memory \<Rightarrow> 'a memory" where
  "Atomic_store_jshort store_value dest m = store16 m dest store_value"

definition Atomic_store_jint :: "jint \<Rightarrow> 'a::len word \<Rightarrow> 'a memory \<Rightarrow> 'a memory" where
  "Atomic_store_jint store_value dest m = store32 m dest store_value"

definition Atomic_store_ptr :: "'a::len word \<Rightarrow> 'a word \<Rightarrow> 'a memory \<Rightarrow> 'a memory" where
  "Atomic_store_ptr store_value dest m =
     write_bytes m dest (le_bytes (LENGTH('a) div 8) store_value)"

text \<open>
  Modelled from the spec: the header defines no load below 8 bytes. For widths up to
  the register width the spec asks for a plain aligned read, which is what these are.
\<close>

definition plain_load_jbyte :: "'a::len word \<Rightarrow> 'a memory \<Rightarrow> jbyte" where
  "plain_load_jbyte src m = load8 m src"

definition plain_load_jint :: "'a::len word \<Rightarrow> 'a memory \<Rightarrow> jint" where
  "plain_load_jint src m = load32 m src"

section \<open>The wide-register build (AMD64)\<close>

text \<open>
  Modelled from the spec: the entry points \<^verbatim>\<open>os::atomic_*_func\<close> are function
  pointers declared and resolved outside this header. They are taken as parameters:
  synchronous total functions of their arguments and of memory that return a value and
  the memory they leave.
\<close>

record os_entry_points =
  atomic_add_func :: "jint \<Rightarrow> 64 word \<Rightarrow> 64 memory \<Rightarrow> jint \<times> 64 memory"
  atomic_add_ptr_func :: "64 word \<Rightarrow> 64 word \<Rightarrow> 64 memory \<Rightarrow> 64 word \<times> 64 memory"
  atomic_xchg_func :: "jint \<Rightarrow> 64 word \<Rightarrow> 64 memory \<Rightarrow> jint \<times> 64 memory"
  atomic_xchg_ptr_func :: "64 word \<Rightarrow> 64 word \<Rightarrow> 64 memory \<Rightarrow> 64 word \<times> 64 memory"
  atomic_cmpxchg_byte_func :: "jbyte \<Rightarrow> 64 word \<Rightarrow> jbyte \<Rightarrow> 64 memory \<Rightarrow> jbyte \<times> 64 memory"
  atomic_cmpxchg_func :: "jint \<Rightarrow> 64 word \<Rightarrow> jint \<Rightarrow> 64 memory \<Rightarrow> jint \<times> 64 memory"
  atomic_cmpxchg_long_func :: "jlong \<Rightarrow> 64 word \<Rightarrow> jlong \<Rightarrow> 64 memory \<Rightarrow> jlong \<times> 64 memory"

text \<open>
  Modelled from the spec: \<^verbatim>\<open>add_using_helper\<close> and \<^verbatim>\<open>cmpxchg_using_helper\<close> live
  in the shared atomic header. They reinterpret the operands as the entry point's type
  of the same size, call it once and reinterpret the result back.
\<close>

definition add_using_helper ::
  "('v \<Rightarrow> 64 word \<Rightarrow> 64 memory \<Rightarrow> 'v \<times> 64 memory) \<Rightarrow> 'v \<Rightarrow> 64 word \<Rightarrow> 64 memory \<Rightarrow> 'v \<times> 64 memory" where
  "add_using_helper fn add_value dest m = fn add_value dest m"

definition cmpxchg_using_helper ::
  "('v \<Rightarrow> 64 word \<Rightarrow> 'v \<Rightarrow> 64 memory \<Rightarrow> 'v \<times> 64 memory) \<Rightarrow> 'v \<Rightarrow> 64 word \<Rightarrow> 'v \<Rightarrow> 64 memory \<Rightarrow> 'v \<times> 64 memory" where
  "cmpxchg_using_helper fn exchange_value dest compare_value m =
     fn exchange_value dest compare_value m"

definition Atomic_store_jlong_amd64 :: "jlong \<Rightarrow> 64 word \<Rightarrow> 64 memory \<Rightarrow> 64 memory" where
  "Atomic_store_jlong_amd64 store_value dest m = store64 m dest store_value"

definition PlatformAdd_4_add_and_fetch_amd64 ::
  "os_entry_points \<Rightarrow> jint \<Rightarrow> 64 word \<Rightarrow> 64 memory \<Rightarrow> jint \<times> 64 memory" where
  "PlatformAdd_4_add_and_fetch_amd64 os add_value dest m =
     add_using_helper (atomic_add_func os) add_value dest m"

definition PlatformAdd_8_add_and_fetch_amd64 ::
  "os_entry_points \<Rightarrow> 64 word \<Rightarrow> 64 word \<Rightarrow> 64 memory \<Rightarrow> 64 word \<times> 64 memory" where
  "PlatformAdd_8_add_and_fetch_amd64 os add_value dest m =
     add_using_helper (atomic_add_ptr_func os) add_value dest m"

text \<open>
  Modelled from the spec: \<^verbatim>\<open>Atomic::add\<close> and \<^verbatim>\<open>Atomic::add_ptr\<close> are declared in
  the shared atomic header; the width dispatch layer routes them to the specialisation
  of the operand's size, 4 bytes for \<^verbatim>\<open>jint\<close> and 8 for \<^verbatim>\<open>intptr_t\<close> here.
\<close>

definition Atomic_add_amd64 ::
  "os_entry_points \<Rightarrow> jint \<Rightarrow> 64 word \<Rightarrow> 64 memory \<Rightarrow> jint \<times> 64 memory" where
  "Atomic_add_amd64 os add_value dest m = PlatformAdd_4_add_and_fetch_amd64 os add_value dest m"

definition Atomic_add_ptr_amd64 ::
  "os_entry_points \<Rightarrow> 64 word \<Rightarrow> 64 word \<Rightarrow> 64 memory \<Rightarrow> 64 word \<times> 64 memory" where
  "Atomic_add_ptr_amd64 os add_value dest m = PlatformAdd_8_add_and_fetch_amd64 os add_value dest m"

text \<open>\<^verbatim>\<open>(void)add(1, dest);\<close> and its siblings: the returned value is dropped.\<close>

definition Atomic_inc_amd64 :: "os_entry_points \<Rightarrow> 64 word \<Rightarrow> 64 memory \<Rightarrow> 64 memory" where
  "Atomic_inc_amd64 os dest m = snd (Atomic_add_amd64 os 1 dest m)"

definition Atomic_inc_ptr_amd64 :: "os_entry_points \<Rightarrow> 64 word \<Rightarrow> 64 memory \<Rightarrow> 64 memory" where
  "Atomic_inc_ptr_amd64 os dest m = snd (Atomic_add_ptr_amd64 os 1 dest m)"

definition Atomic_dec_amd64 :: "os_entry_points \<Rightarrow> 64 word \<Rightarrow> 64 memory \<Rightarrow> 64 memory" where
  "Atomic_dec_amd64 os dest m = snd (Atomic_add_amd64 os (- 1) dest m)"

definition Atomic_dec_ptr_amd64 :: "os_entry_points \<Rightarrow> 64 word \<Rightarrow> 64 memory \<Rightarrow> 64 memory" where
  "Atomic_dec_ptr_amd64 os dest m = snd (Atomic_add_ptr_amd64 os (- 1) dest m)"

definition Atomic_xchg_amd64 ::
  "os_entry_points \<Rightarrow> jint \<Rightarrow> 64 word \<Rightarrow> 64 memory \<Rightarrow> jint \<times> 64 memory" where
  "Atomic_xchg_amd64 os exchange_value dest m = atomic_xchg_func os exchange_value dest m"

text \<open>
  Both \<^verbatim>\<open>xchg_ptr\<close> overloads call the pointer-width entry point; the \<^verbatim>\<open>void*\<close> one
  casts the pointer to \<^verbatim>\<open>intptr_t\<close> and the result back, which keeps the 64 bits.
\<close>

definition Atomic_xchg_ptr_amd64 ::
  "os_entry_points \<Rightarrow> 64 word \<Rightarrow> 64 word \<Rightarrow> 64 memory \<Rightarrow> 64 word \<times> 64 memory" where
  "Atomic_xchg_ptr_amd64 os exchange_value dest m = atomic_xchg_ptr_func os exchange_value dest m"

text \<open>\<^verbatim>\<open>DEFINE_STUB_CMPXCHG(ByteSize, StubType, StubName)\<close> at its three uses.\<close>

definition PlatformCmpxchg_1_amd64 ::
  "os_entry_points \<Rightarrow> jbyte \<Rightarrow> 64 word \<Rightarrow> jbyte \<Rightarrow> 'order \<Rightarrow> 64 memory \<Rightarrow> jbyte \<times> 64 memory" where
  "PlatformCmpxchg_1_amd64 os exchange_value dest compare_value order m =
     cmpxchg_using_helper (atomic_cmpxchg_byte_func os) exchange_value dest compare_value m"

definition PlatformCmpxchg_4_amd64 ::
  "os_entry_points \<Rightarrow> jint \<Rightarrow> 64 word \<Rightarrow> jint \<Rightarrow> 'order \<Rightarrow> 64 memory \<Rightarrow> jint \<times> 64 memory" where
  "PlatformCmpxchg_4_amd64 os exchange_value dest compare_value order m =
     cmpxchg_using_helper (atomic_cmpxchg_func os) exchange_value dest compare_value m"

definition PlatformCmpxchg_8_amd64 ::
  "os_entry_points \<Rightarrow> jlong \<Rightarrow> 64 word \<Rightarrow> jlong \<Rightarrow> 'order \<Rightarrow> 64 memory \<Rightarrow> jlong \<times> 64 memory" where
  "PlatformCmpxchg_8_amd64 os exchange_value dest compare_value order m =
     cmpxchg_using_helper (atomic_cmpxchg_long_func os) exchange_value dest compare_value m"

definition Atomic_load_jlong_amd64 :: "64 word \<Rightarrow> 64 memory \<Rightarrow> jlong" where
  "Atomic_load_jlong_amd64 src m = load64 m src"

section \<open>The narrow-register build (IA-32)\<close>

text \<open>
  Each function takes the machine state at the call and returns the state it leaves,
  with the returned value where there is one. A pointer and \<^verbatim>\<open>intptr_t\<close> are 32 bits.
\<close>

text \<open>The assembly block of \<^verbatim>\<open>PlatformAdd<4>::add_and_fetch\<close>, and the function.\<close>

definition add_and_fetch_block :: "jint \<Rightarrow> 32 word \<Rightarrow> (x86 \<Rightarrow> x86) list" where
  "add_and_fetch_block add_value dest = [
     mov EDX dest,
     mov EAX add_value,
     mov_rr ECX EAX,
     lock_xadd EDX EAX,
     add_rr EAX ECX]"

definition PlatformAdd_4_add_and_fetch_ia32 :: "jint \<Rightarrow> 32 word \<Rightarrow> x86 \<Rightarrow> jint \<times> x86" where
  "PlatformAdd_4_add_and_fetch_ia32 add_value dest s =
     (let s' = asm (add_and_fetch_block add_value dest) s
      in (ret32 s', s'))"

text \<open>
  Modelled from the spec: \<^verbatim>\<open>Atomic::add\<close> is declared in the shared atomic header;
  for a 4-byte operand the width dispatch layer routes it to \<^verbatim>\<open>PlatformAdd<4>\<close>.
\<close>

definition Atomic_add_ia32 :: "jint \<Rightarrow> 32 word \<Rightarrow> x86 \<Rightarrow> jint \<times> x86" where
  "Atomic_add_ia32 add_value dest s = PlatformAdd_4_add_and_fetch_ia32 add_value dest s"

definition Atomic_inc_ia32 :: "32 word \<Rightarrow> x86 \<Rightarrow> x86" where
  "Atomic_inc_ia32 dest s =
     asm [
       mov EDX dest,
       lock_add EDX 1] s"

definition Atomic_inc_ptr_ia32 :: "32 word \<Rightarrow> x86 \<Rightarrow> x86" where
  "Atomic_inc_ptr_ia32 dest s = Atomic_inc_ia32 dest s"

definition Atomic_dec_ia32 :: "32 word \<Rightarrow> x86 \<Rightarrow> x86" where
  "Atomic_dec_ia32 dest s =
     asm [
       mov EDX dest,
       lock_sub EDX 1] s"

definition Atomic_dec_ptr_ia32 :: "32 word \<Rightarrow> x86 \<Rightarrow> x86" where
  "Atomic_dec_ptr_ia32 dest s = Atomic_dec_ia32 dest s"

definition Atomic_xchg_ia32 :: "jint \<Rightarrow> 32 word \<Rightarrow> x86 \<Rightarrow> jint \<times> x86" where
  "Atomic_xchg_ia32 exchange_value dest s =
     (let s' = asm [
        mov EAX exchange_value,
        mov ECX dest,
        xchg_rm EAX ECX] s
      in (ret32 s', s'))"

text \<open>
  \<^verbatim>\<open>return (intptr_t)xchg((jint)exchange_value, (volatile jint*)dest);\<close> and the
  \<^verbatim>\<open>void*\<close> overload: casts between 32-bit types.
\<close>

definition Atomic_xchg_ptr_ia32 :: "32 word \<Rightarrow> 32 word \<Rightarrow> x86 \<Rightarrow> 32 word \<times> x86" where
  "Atomic_xchg_ptr_ia32 exchange_value dest s =
     (let (r, s') = Atomic_xchg_ia32 (ucast exchange_value) dest s in (ucast r, s'))"

definition PlatformCmpxchg_1_ia32 :: "jbyte \<Rightarrow> 32 word \<Rightarrow> jbyte \<Rightarrow> 'order \<Rightarrow> x86 \<Rightarrow> jbyte \<times> x86" where
  "PlatformCmpxchg_1_ia32 exchange_value dest compare_value order s =
     (let s' = asm [
        mov EDX dest,
        mov8 ECX exchange_value,
        mov8 EAX compare_value,
        lock_cmpxchg8 EDX ECX] s
      in (ret8 s', s'))"

definition PlatformCmpxchg_4_ia32 :: "jint \<Rightarrow> 32 word \<Rightarrow> jint \<Rightarrow> 'order \<Rightarrow> x86 \<Rightarrow> jint \<times> x86" where
  "PlatformCmpxchg_4_ia32 exchange_value dest compare_value order s =
     (let s' = asm [
        mov EDX dest,
        mov ECX exchange_value,
        mov EAX compare_value,
        lock_cmpxchg32 EDX ECX] s
      in (ret32 s', s'))"

text \<open>
  \<^verbatim>\<open>*(((jint*)&v) + i)\<close>: the \<open>i\<close>-th 4-byte element of the object representation of
  an 8-byte parameter.
\<close>

definition jint_at :: "jlong \<Rightarrow> nat \<Rightarrow> jint" where
  "jint_at v i = le_word (take 4 (drop (4 * i) (le_bytes 8 v)))"

definition PlatformCmpxchg_8_ia32 :: "jlong \<Rightarrow> 32 word \<Rightarrow> jlong \<Rightarrow> 'order \<Rightarrow> x86 \<Rightarrow> jlong \<times> x86" where
  "PlatformCmpxchg_8_ia32 exchange_value dest compare_value order s =
     (let ex_lo = ucast exchange_value;
          ex_hi = jint_at exchange_value 1;
          cmp_lo = ucast compare_value;
          cmp_hi = jint_at compare_value 1;
          s' = asm [
            push EBX,
            push EDI,
            mov EAX cmp_lo,
            mov EDX cmp_hi,
            mov EDI dest,
            mov EBX ex_lo,
            mov ECX ex_hi,
            lock_cmpxchg8b EDI,
            pop EDI,
            pop EBX] s
      in (ret64 s', s'))"

text \<open>
  \<^verbatim>\<open>Atomic::load(const volatile jlong* src)\<close>. The local \<^verbatim>\<open>dest\<close> lives in the frame
  of the function at the address \<open>pdest\<close>; the result is read back from it.
\<close>

definition Atomic_load_jlong_ia32 :: "32 word \<Rightarrow> 32 word \<Rightarrow> x86 \<Rightarrow> jlong \<times> x86" where
  "Atomic_load_jlong_ia32 pdest src s =
     (let s' = asm [
        mov EAX src,
        fild EAX,
        mov EAX pdest,
        fistp EAX] s
      in (load64 (mem s') pdest, s'))"

text \<open>
  \<^verbatim>\<open>Atomic::store(jlong store_value, volatile jlong* dest)\<close>. The parameter
  \<^verbatim>\<open>store_value\<close> is an object of the frame, at the address \<open>src\<close>, that holds the
  argument when the block starts. The overload on \<^verbatim>\<open>jlong*\<close> calls this one.
\<close>

definition Atomic_store_jlong_ia32 :: "32 word \<Rightarrow> jlong \<Rightarrow> 32 word \<Rightarrow> x86 \<Rightarrow> x86" where
  "Atomic_store_jlong_ia32 src store_value dest s =
     asm [
       mov EAX src,
       fild EAX,
       mov EAX dest,
       fistp EAX] (s\<lparr>mem := store64 (mem s) src store_value\<rparr>)"

section \<open>The backend contract and the caller's view\<close>

text \<open>
  Modelled from the spec: what the backend capability provider owes the wide-register
  build. The add entry points perform the addition and return the post-addition value;
  the exchange entry points replace the value and return the one before; the
  compare-exchange entry points store the new value when the old one equals the
  comparison value and return the old one either way.
\<close>

definition backend_contract :: "os_entry_points \<Rightarrow> bool" where
  "backend_contract os \<longleftrightarrow>
     (\<forall>d p m. atomic_add_func os d p m =
        (load32 m p + d, store32 m p (load32 m p + d)))
   \<and> (\<forall>d p m. atomic_add_ptr_func os d p m =
        (load64 m p + d, store64 m p (load64 m p + d)))
   \<and> (\<forall>n p m. atomic_xchg_func os n p m = (load32 m p, store32 m p n))
   \<and> (\<forall>n p m. atomic_xchg_ptr_func os n p m = (load64 m p, store64 m p n))
   \<and> (\<forall>x p c m. atomic_cmpxchg_byte_func os x p c m =
        (load8 m p, if load8 m p = c then store8 m p x else m))
   \<and> (\<forall>x p c m. atomic_cmpxchg_func os x p c m =
        (load32 m p, if load32 m p = c then store32 m p x else m))
   \<and> (\<forall>x p c m. atomic_cmpxchg_long_func os x p c m =
        (load64 m p, if load64 m p = c then store64 m p x else m))"

text \<open>An entry-point table that meets the contract, used to instantiate the theorems.\<close>

definition reference_os :: os_entry_points where
  "reference_os = \<lparr>
     atomic_add_func = (\<lambda>d p m. (load32 m p + d, store32 m p (load32 m p + d))),
     atomic_add_ptr_func = (\<lambda>d p m. (load64 m p + d, store64 m p (load64 m p + d))),
     atomic_xchg_func = (\<lambda>n p m. (load32 m p, store32 m p n)),
     atomic_xchg_ptr_func = (\<lambda>n p m. (load64 m p, store64 m p n)),
     atomic_cmpxchg_byte_func =
       (\<lambda>x p c m. (load8 m p, if load8 m p = c then store8 m p x else m)),
     atomic_cmpxchg_func =
       (\<lambda>x p c m. (load32 m p, if load32 m p = c then store32 m p x else m)),
     atomic_cmpxchg_long_func =
       (\<lambda>x p c m. (load64 m p, if load64 m p = c then store64 m p x else m))\<rparr>"

text \<open>
  What a caller may rely on after a call: memory, the x87 state and the registers the
  calling convention preserves. \<^verbatim>\<open>eax\<close>, \<^verbatim>\<open>ecx\<close> and \<^verbatim>\<open>edx\<close> are scratch.
\<close>

definition caller_view ::
  "x86 \<Rightarrow> 32 memory \<times> fpext list \<times> rounding \<times> 32 word \<times> 32 word \<times> 32 word" where
  "caller_view s = (mem s, fpu s, fpu_rc s, regs s EBX, regs s EDI, regs s ESP)"

text \<open>A machine state at a call, used to instantiate the theorems.\<close>

definition x86_at_call :: x86 where
  "x86_at_call =
     \<lparr>regs = (\<lambda>_. 0)(ESP := 0x7000), mem = (\<lambda>_. 0), fpu = [], fpu_rc = RC_NEAREST\<rparr>"

section \<open>Concurrent callers of the locked add\<close>

text \<open>
  Callers that run the block of \<^verbatim>\<open>add_and_fetch\<close> at the same time are modelled by
  interleaving: each thread has its own processor state and a position in the block,
  memory is shared, and a schedule names the thread that executes its next instruction.
  An instruction is one step. For \<^verbatim>\<open>lock xadd\<close> that is what the bus lock provides;
  the other instructions of the block touch registers only.
\<close>

type_synonym thread = "nat \<times> x86"

record system =
  shared :: "32 memory"
  threads :: "thread list"

text \<open>
  Thread \<open>i\<close> executes its next instruction on the shared memory; a thread that has
  left the block, or an index that names no thread, changes nothing.
\<close>

definition thread_step :: "(x86 \<Rightarrow> x86) list \<Rightarrow> nat \<Rightarrow> system \<Rightarrow> system" where
  "thread_step block i g =
     (if i < length (threads g)
      then let (pc, c) = threads g ! i
           in if pc < length block
              then let c' = (block ! pc) (c\<lparr>mem := shared g\<rparr>)
                   in \<lparr>shared = mem c', threads = (threads g)[i := (Suc pc, c')]\<rparr>
              else g
      else g)"

definition run_schedule :: "(x86 \<Rightarrow> x86) list \<Rightarrow> nat list \<Rightarrow> system \<Rightarrow> system" where
  "run_schedule block sched g = fold (thread_step block) sched g"

text \<open>All callers at the start of the block, over the given memory.\<close>

definition start_system :: "32 memory \<Rightarrow> x86 list \<Rightarrow> system" where
  "start_system m cpus = \<lparr>shared = m, threads = map (\<lambda>c. (0, c)) cpus\<rparr>"

text \<open>Every caller has executed the whole block.\<close>

definition all_returned :: "(x86 \<Rightarrow> x86) list \<Rightarrow> system \<Rightarrow> bool" where
  "all_returned block g = list_all (\<lambda>t. fst t = length block) (threads g)"

text \<open>The number of callers that have executed their \<^verbatim>\<open>lock xadd\<close>, the fourth instruction.\<close>

definition adds_done :: "system \<Rightarrow> nat" where
  "adds_done g = length (filter (\<lambda>t. 4 \<le> fst t) (threads g))"

text \<open>
  The invariant of the interleaving: between \<^verbatim>\<open>mov edx, dest\<close> and the locked add
  a thread holds the address in \<^verbatim>\<open>edx\<close>, and from \<^verbatim>\<open>mov eax, add_value\<close> on the
  addend in \<^verbatim>\<open>eax\<close>; the slot holds its initial value plus the number of locked
  adds executed.
\<close>

definition thread_ok :: "32 word \<Rightarrow> thread \<Rightarrow> bool" where
  "thread_ok dest t \<longleftrightarrow>
     fst t \<le> 5
     \<and> (1 \<le> fst t \<and> fst t \<le> 3 \<longrightarrow> regs (snd t) EDX = dest)
     \<and> (2 \<le> fst t \<and> fst t \<le> 3 \<longrightarrow> regs (snd t) EAX = 1)"

definition sys_inv :: "jint \<Rightarrow> 32 word \<Rightarrow> system \<Rightarrow> bool" where
  "sys_inv v0 dest g \<longleftrightarrow>
     list_all (thread_ok dest) (threads g)
     \<and> load32 (shared g) dest = v0 + of_nat (adds_done g)"

text \<open>
  \<open>2 ^ 32\<close> callers of \<^verbatim>\<open>add(1, dest)\<close> on a slot that holds 0, scheduled round robin
  until all have returned.
\<close>

definition wrapping_run :: system where
  "wrapping_run =
     run_schedule (add_and_fetch_block 1 0x1000) (concat (replicate 5 [0..<4294967296]))
       (start_system (store32 (\<lambda>_. 0) 0x1000 0) (replicate 4294967296 x86_at_call))"

section \<open>Memory and encoding lemmas\<close>

lemma bit_le_word:
  "bit (le_word bs :: 'a::len word) k \<longleftrightarrow>
     k < LENGTH('a) \<and> k div 8 < length bs \<and> bit (bs ! (k div 8)) (k mod 8)"
proof (induction bs arbitrary: k)
  case Nil
  then show ?case by simp
next
  case (Cons b bs)
  show ?case
  proof (cases "k < 8")
    case True
    then show ?thesis by (auto simp: bit_simps dest: bit_imp_le_length)
  next
    case False
    then have k: "8 \<le> k" by simp
    then have d: "k div 8 = Suc ((k - 8) div 8)" "k mod 8 = (k - 8) mod 8"
      by (simp_all add: le_div_geq le_mod_geq)
    have nb: "\<not> bit b k" using k by (auto dest: bit_imp_le_length)
    show ?thesis using k nb
      by (auto simp: bit_simps Cons.IH d)
  qed
qed

lemma length_le_bytes [simp]: "length (le_bytes n w) = n"
  by (induction n arbitrary: w) simp_all

lemma nth_le_bytes:
  "i < n \<Longrightarrow> le_bytes n w ! i = ucast (drop_bit (8 * i) w)"
proof (induction n arbitrary: w i)
  case 0
  then show ?case by simp
next
  case (Suc n)
  then show ?case
    by (cases i) (simp_all add: drop_bit_drop_bit add.commute)
qed

lemma le_word_le_bytes:
  assumes "LENGTH('a::len) \<le> 8 * n"
  shows "(le_word (le_bytes n (w :: 'a word)) :: 'a word) = w"
proof (rule bit_word_eqI)
  fix k assume k: "k < LENGTH('a)"
  then have "k div 8 < n" using assms by (simp add: less_mult_imp_div_less mult.commute)
  then show "bit (le_word (le_bytes n w) :: 'a word) k = bit w k"
    using k by (simp add: bit_le_word nth_le_bytes bit_simps)
qed

lemma length_read_bytes [simp]: "length (read_bytes m p n) = n"
  by (induction n arbitrary: p) simp_all

lemma length_slot [simp]: "length (slot p n) = n"
  by (induction n arbitrary: p) simp_all

lemma set_slot: "set (slot p n) = (\<lambda>i. p + of_nat i) ` {..<n}"
proof (induction n arbitrary: p)
  case 0
  then show ?case by simp
next
  case (Suc n)
  have "(\<lambda>i. p + of_nat i) ` {..<Suc n} = insert p ((\<lambda>i. p + 1 + of_nat i) ` {..<n})"
    by (auto simp: lessThan_Suc_eq_insert_0 image_image add.assoc)
  then show ?case by (simp add: Suc.IH)
qed

lemma write_bytes_outside:
  "a \<notin> set (slot p (length bs)) \<Longrightarrow> write_bytes m p bs a = m a"
  by (induction bs arbitrary: m p) auto

lemma read_bytes_cong:
  "(\<And>a. a \<in> set (slot p n) \<Longrightarrow> m a = m' a) \<Longrightarrow> read_bytes m p n = read_bytes m' p n"
  by (induction n arbitrary: p) auto

lemma start_not_in_rest:
  fixes p :: "'a::len word"
  assumes "n < 2 ^ LENGTH('a)"
  shows "p \<notin> set (slot (p + 1) n)"
proof
  assume "p \<in> set (slot (p + 1) n)"
  then obtain i where i: "i < n" "p = p + 1 + of_nat i" by (auto simp: set_slot)
  then have "(of_nat (Suc i) :: 'a word) = 0"
    by (simp add: add.assoc)
  moreover have "Suc i < 2 ^ LENGTH('a)" using i assms by simp
  ultimately show False
    using of_nat_neq_0 [of "Suc i", where 'a='a] by simp
qed

lemma read_write_bytes:
  fixes p :: "'a::len word"
  shows "length bs \<le> 2 ^ LENGTH('a) \<Longrightarrow> read_bytes (write_bytes m p bs) p (length bs) = bs"
proof (induction bs arbitrary: m p)
  case Nil
  then show ?case by simp
next
  case (Cons b bs)
  then have "p \<notin> set (slot (p + 1) (length bs))"
    by (intro start_not_in_rest) simp
  then have "write_bytes (m(p := b)) (p + 1) bs p = b"
    by (simp add: write_bytes_outside)
  with Cons show ?case by simp
qed


lemma read_write_le_bytes:
  fixes p :: "'a::len word"
  assumes "3 \<le> LENGTH('a)" "n \<le> 8"
  shows "read_bytes (write_bytes m p (le_bytes n w)) p n = le_bytes n w"
proof -
  have "(2::nat) ^ 3 \<le> 2 ^ LENGTH('a)"
    using assms(1) by (intro power_increasing) simp_all
  then have "length (le_bytes n w) \<le> 2 ^ LENGTH('a)"
    using assms(2) by simp
  from read_write_bytes [OF this, of m p] show ?thesis by simp
qed

lemma load_store_same:
  fixes p :: "'a::len word"
  assumes "3 \<le> LENGTH('a)"
  shows "load8 (store8 m p v) p = v"
    and "load16 (store16 m p w) p = w"
    and "load32 (store32 m p x) p = x"
    and "load64 (store64 m p y) p = y"
  by (simp_all add: load8_def store8_def load16_def store16_def load32_def store32_def
      load64_def store64_def le_word_le_bytes read_write_le_bytes [OF assms]
      del: le_bytes.simps read_bytes.simps write_bytes.simps)

lemma store_outside:
  "\<not> in_slot a p 1 \<Longrightarrow> store8 m p v a = m a"
  "\<not> in_slot a p 2 \<Longrightarrow> store16 m p w a = m a"
  "\<not> in_slot a p 4 \<Longrightarrow> store32 m p x a = m a"
  "\<not> in_slot a p 8 \<Longrightarrow> store64 m p y a = m a"
  by (simp_all add: in_slot_def store8_def store16_def store32_def store64_def
      write_bytes_outside del: le_bytes.simps write_bytes.simps slot.simps)

lemma join64_split [simp]: "join64 (hi32 v) (lo32 v) = v"
  by (rule bit_word_eqI) (auto simp: join64_def hi32_def lo32_def bit_simps)

lemma hi32_join64 [simp]: "hi32 (join64 h l) = h"
  by (rule bit_word_eqI) (auto simp: join64_def hi32_def bit_simps dest: bit_imp_le_length)

lemma lo32_join64 [simp]: "lo32 (join64 h l) = l"
  by (rule bit_word_eqI) (auto simp: join64_def lo32_def bit_simps dest: bit_imp_le_length)

lemma jint_at_0: "jint_at v 0 = lo32 v"
  by (rule bit_word_eqI) (auto simp: jint_at_def lo32_def bit_le_word nth_le_bytes bit_simps)

lemma jint_at_1: "jint_at v 1 = hi32 v"
  by (rule bit_word_eqI)
    (auto simp: jint_at_def hi32_def bit_le_word nth_le_bytes bit_simps less_mult_imp_div_less add.commute)

lemma low_byte_mask: "(255 :: 32 word) = mask 8"
  by (simp add: mask_eq_exp_minus_1)

lemma reg8_set_reg8 [simp]: "reg8 r (set_reg8 r b s) = b"
  by (rule bit_word_eqI)
    (auto simp: reg8_def set_reg8_def set_reg_def low_byte_mask bit_simps dest: bit_imp_le_length)

lemma slot_append: "slot p (n + k) = slot p n @ slot (p + of_nat n) k"
  by (induction n arbitrary: p) (simp_all add: add.assoc)

lemma in_slot_halves:
  "in_slot a q 8 \<longleftrightarrow> in_slot a q 4 \<or> in_slot a (q + 4) 4"
  using slot_append [of q 4 4] by (auto simp: in_slot_def simp del: slot.simps)

lemma disjoint_slots_iff:
  "disjoint_slots p n q k \<longleftrightarrow> (\<forall>a. in_slot a p n \<longrightarrow> \<not> in_slot a q k)"
  by (auto simp: disjoint_slots_def in_slot_def list_all_iff)

lemma load_cong:
  "(\<And>a. in_slot a p 1 \<Longrightarrow> m a = m' a) \<Longrightarrow> load8 m p = load8 m' p"
  "(\<And>a. in_slot a p 2 \<Longrightarrow> m a = m' a) \<Longrightarrow> load16 m p = load16 m' p"
  "(\<And>a. in_slot a p 4 \<Longrightarrow> m a = m' a) \<Longrightarrow> load32 m p = load32 m' p"
  "(\<And>a. in_slot a p 8 \<Longrightarrow> m a = m' a) \<Longrightarrow> load64 m p = load64 m' p"
  unfolding load8_def load16_def load32_def load64_def in_slot_def
  by (metis read_bytes_cong)+

text \<open>The two pushes of the 8-byte compare-exchange write the 8 bytes below the stack pointer.\<close>

lemma pushed_outside:
  assumes "\<not> in_slot a (sp - 8) 8"
  shows "store32 (store32 m (sp - 4) v) (sp - 8) w a = m a"
proof -
  have "\<not> in_slot a (sp - 8) 4" "\<not> in_slot a (sp - 8 + 4) 4"
    using assms by (simp_all add: in_slot_halves)
  moreover have "sp - 8 + 4 = sp - 4" by simp
  ultimately show ?thesis by (simp add: store_outside)
qed

lemma load64_pushed:
  assumes "disjoint_slots dest 8 (sp - 8) 8"
  shows "load64 (store32 (store32 m (sp - 4) v) (sp - 8) w) dest = load64 m dest"
  using assms by (intro load_cong) (simp add: disjoint_slots_iff pushed_outside)

lemma slot_unfold:
  "slot p 1 = [p]"
  "slot p 2 = [p, p + 1]"
  "slot p 4 = [p, p + 1, p + 2, p + 3]"
  "slot p 8 = [p, p + 1, p + 2, p + 3, p + 4, p + 5, p + 6, p + 7]"
  by (simp_all add: eval_nat_numeral add.assoc)

section \<open>The x87 integer round trip\<close>

lemma top_bit_bounds: "0 < n \<Longrightarrow> 2 ^ top_bit n \<le> n \<and> n < 2 ^ Suc (top_bit n)"
proof (induction n rule: top_bit.induct)
  case (1 n)
  show ?case
  proof (cases "n < 2")
    case True
    with "1.prems" show ?thesis by (simp add: top_bit.simps [of n])
  next
    case False
    then have "0 < n div 2" by simp
    with "1.IH" False have ih: "2 ^ top_bit (n div 2) \<le> n div 2" "n div 2 < 2 ^ Suc (top_bit (n div 2))"
      by simp_all
    have t: "top_bit n = Suc (top_bit (n div 2))" using False by (simp add: top_bit.simps [of n])
    show ?thesis unfolding t using ih by simp linarith
  qed
qed

lemma round_magnitude_exact: "0 < d \<Longrightarrow> round_magnitude rc neg q 0 d = q"
  by (cases rc) (simp_all add: round_magnitude_def)

lemma uint_nonneg_sint:
  fixes x :: jlong
  assumes "0 \<le> sint x"
  shows "uint x = sint x"
proof -
  have "sint x < 2 ^ 64" using sint_lt [of x] by simp
  then have "take_bit 64 (sint x) = sint x"
    using assms by (simp add: take_bit_int_eq_self)
  then show ?thesis using uint_sint [of x] by simp
qed

lemma uint_neg_sint:
  fixes x :: jlong
  assumes "sint x < 0"
  shows "uint (- x) = - sint x"
proof -
  have b: "- sint x \<le> 2 ^ 63" using sint_ge [of x] by simp
  have "uint (- x) = (- uint x) mod 2 ^ 64"
    by (simp add: uint_word_ariths)
  also have "\<dots> = (- (sint x mod 2 ^ 64)) mod 2 ^ 64"
    using uint_sint [of x] by (simp add: take_bit_eq_mod)
  also have "\<dots> = (- sint x) mod 2 ^ 64"
    by (simp add: mod_minus_eq)
  also have "\<dots> = - sint x"
    using assms b by (intro mod_pos_pos_trivial) simp_all
  finally show ?thesis .
qed

lemma exponent_le_63: "(2::nat) ^ k \<le> m \<Longrightarrow> m \<le> 2 ^ 63 \<Longrightarrow> k \<le> 63"
proof -
  assume a: "(2::nat) ^ k \<le> m" "m \<le> 2 ^ 63"
  then have "(2::nat) ^ k < 2 ^ 64" by (simp del: power_Suc)
  then have "k < 64" by (simp only: power_strict_increasing_iff one_less_numeral_iff semiring_norm)
  then show ?thesis by simp
qed

lemma pow2_split_64: "k \<le> 63 \<Longrightarrow> (2::nat) ^ Suc k * 2 ^ (63 - k) = 2 ^ 64"
proof -
  assume "k \<le> 63"
  then have "Suc k + (63 - k) = 64" by simp
  then show ?thesis by (metis power_add)
qed

lemma div_top_bit: "(2::nat) ^ k \<le> m \<Longrightarrow> m < 2 ^ Suc k \<Longrightarrow> m div 2 ^ k = 1"
  by (rule div_nat_eqI) simp_all

lemma unat_le_from_uint: "uint (m::jlong) \<le> 2 ^ 63 \<Longrightarrow> unat m \<le> 2 ^ 63"
  by (simp add: unat_eq_nat_uint nat_le_iff del: nat_uint_eq)

lemma unat_less_from_uint: "uint (m::jlong) < 2 ^ 63 \<Longrightarrow> unat m < 2 ^ 63"
  by (simp add: unat_eq_nat_uint nat_less_iff del: nat_uint_eq)

lemma fild_fistp_exact: "fpext_to_int64 rc (int64_to_fpext x) = x"
proof (cases "x = 0")
  case True
  then show ?thesis by (simp add: fpext_to_int64_def int64_to_fpext_def)
next
  case False
  define neg where "neg = (sint x < 0)"
  define mag where "mag = (if neg then - x else x)"
  define k where "k = top_bit (unat mag)"
  have f: "int64_to_fpext x = \<lparr>fp_sign = neg, fp_exp = 16383 + k, fp_sig = push_bit (63 - k) mag\<rparr>"
    unfolding neg_def mag_def k_def using False by (simp only: int64_to_fpext_def Let_def if_False)
  have "mag \<noteq> 0" using False by (auto simp: mag_def)
  then have pos: "0 < unat mag" by (simp add: unat_gt_0)
  have int_mag: "uint mag = \<bar>sint x\<bar>"
    using uint_neg_sint [of x] uint_nonneg_sint [of x] by (auto simp: mag_def neg_def)
  have le: "unat mag \<le> 2 ^ 63"
    using int_mag sint_ge [of x] sint_lt [of x] by (intro unat_le_from_uint) simp
  have lt: "unat mag < 2 ^ 63" if "\<not> neg"
    using that int_mag sint_lt [of x] by (intro unat_less_from_uint) (simp add: neg_def)
  from top_bit_bounds [OF pos]
  have kb: "2 ^ k \<le> unat mag" "unat mag < 2 ^ Suc k" by (simp_all add: k_def)
  have k63: "k \<le> 63" using kb(1) le by (rule exponent_le_63)
  have "unat mag * 2 ^ (63 - k) < 2 ^ Suc k * 2 ^ (63 - k)"
    using kb(2) by simp
  also have "\<dots> = 2 ^ 64" using k63 by (rule pow2_split_64)
  finally have small: "unat mag * 2 ^ (63 - k) < 2 ^ 64" .
  have "unat (push_bit (63 - k) mag) = take_bit 64 (push_bit (63 - k) (unat mag))"
    by (simp only: unsigned_push_bit_eq len_bit0 len_num1) simp
  also have "\<dots> = push_bit (63 - k) (unat mag)"
    using small by (intro take_bit_nat_eq_self) (simp add: push_bit_eq_mult)
  finally have usig: "unat (push_bit (63 - k) mag) = unat mag * 2 ^ (63 - k)"
    by (simp add: push_bit_eq_mult)
  have "unat mag div 2 ^ k = 1"
    using kb by (rule div_top_bit)
  then have "bit (unat mag) k" by (simp add: bit_iff_odd)
  then have "bit mag k" by (simp add: bit_unsigned_iff)
  then have top: "bit (push_bit (63 - k) mag) 63"
    using k63 by (simp add: bit_simps)
  then have nz: "push_bit (63 - k) mag \<noteq> 0" by auto
  have d: "(16446::nat) - max 1 (16383 + k) = 63 - k" by simp
  have "fpext_to_int64 rc (int64_to_fpext x) = (if neg then - of_nat (unat mag) else of_nat (unat mag))"
    unfolding f fpext_to_int64_def
    using k63 top nz le lt
    by (simp add: d usig round_magnitude_exact Let_def)
  also have "\<dots> = x"
    by (simp add: mag_def)
  finally show ?thesis .
qed

section \<open>What each function returns and leaves in memory\<close>

lemmas insn_defs = asm_def add_and_fetch_block_def mov_def mov8_def mov_rr_def add_rr_def lock_xadd_def lock_add_def
  lock_sub_def xchg_rm_def lock_cmpxchg8_def lock_cmpxchg32_def lock_cmpxchg8b_def push_def
  pop_def fild_def fistp_def set_reg_def ret8_def ret32_def ret64_def

lemmas load_store_32 [simp] = load_store_same [where 'a = 32, simplified]
lemmas load_store_64 [simp] = load_store_same [where 'a = 64, simplified]

lemma reg8_set_reg8_other [simp]: "r \<noteq> r' \<Longrightarrow> reg8 r (set_reg8 r' b s) = reg8 r s"
  by (simp add: reg8_def set_reg8_def set_reg_def)

lemma regs_set_reg8_other [simp]: "r \<noteq> r' \<Longrightarrow> regs (set_reg8 r' b s) r = regs s r"
  by (simp add: set_reg8_def set_reg_def)

lemma mem_set_reg8 [simp]: "mem (set_reg8 r b s) = mem s"
  by (simp add: set_reg8_def set_reg_def)

lemma reg8_set_reg [simp]: "reg8 r (set_reg r' v s) = (if r = r' then ucast v else reg8 r s)"
  by (simp add: reg8_def set_reg_def)

lemma reg8_mem_update [simp]: "reg8 r (s\<lparr>mem := m\<rparr>) = reg8 r s"
  by (simp add: reg8_def)

lemma add_and_fetch_ia32_value:
  "fst (PlatformAdd_4_add_and_fetch_ia32 d dest s) = load32 (mem s) dest + d"
  by (simp add: PlatformAdd_4_add_and_fetch_ia32_def insn_defs Let_def)

lemma add_and_fetch_ia32_mem:
  "mem (snd (PlatformAdd_4_add_and_fetch_ia32 d dest s)) =
     store32 (mem s) dest (load32 (mem s) dest + d)"
  by (simp add: PlatformAdd_4_add_and_fetch_ia32_def insn_defs Let_def)

lemma inc_ia32_mem: "mem (Atomic_inc_ia32 dest s) = store32 (mem s) dest (load32 (mem s) dest + 1)"
  by (simp add: Atomic_inc_ia32_def insn_defs Let_def)

lemma dec_ia32_mem: "mem (Atomic_dec_ia32 dest s) = store32 (mem s) dest (load32 (mem s) dest - 1)"
  by (simp add: Atomic_dec_ia32_def insn_defs Let_def)

lemma xchg_ia32_value: "fst (Atomic_xchg_ia32 n dest s) = load32 (mem s) dest"
  by (simp add: Atomic_xchg_ia32_def insn_defs Let_def)

lemma xchg_ia32_mem: "mem (snd (Atomic_xchg_ia32 n dest s)) = store32 (mem s) dest n"
  by (simp add: Atomic_xchg_ia32_def insn_defs Let_def)

lemma cmpxchg1_ia32_value: "fst (PlatformCmpxchg_1_ia32 x dest c order s) = load8 (mem s) dest"
  by (simp add: PlatformCmpxchg_1_ia32_def insn_defs Let_def)

lemma cmpxchg1_ia32_mem:
  "mem (snd (PlatformCmpxchg_1_ia32 x dest c order s)) =
     (if load8 (mem s) dest = c then store8 (mem s) dest x else mem s)"
  by (simp add: PlatformCmpxchg_1_ia32_def insn_defs Let_def)

lemma cmpxchg4_ia32_value: "fst (PlatformCmpxchg_4_ia32 x dest c order s) = load32 (mem s) dest"
  by (simp add: PlatformCmpxchg_4_ia32_def insn_defs Let_def)

lemma cmpxchg4_ia32_mem:
  "mem (snd (PlatformCmpxchg_4_ia32 x dest c order s)) =
     (if load32 (mem s) dest = c then store32 (mem s) dest x else mem s)"
  by (simp add: PlatformCmpxchg_4_ia32_def insn_defs Let_def)

lemma lo32_ucast [simp]: "ucast (v :: jlong) = lo32 v"
  by (simp add: lo32_def)

lemma jint_at_Suc_0 [simp]: "jint_at v (Suc 0) = hi32 v"
  using jint_at_1 [of v] by simp

lemma cmpxchg8_ia32_value:
  assumes "disjoint_slots dest 8 (regs s ESP - 8) 8"
  shows "fst (PlatformCmpxchg_8_ia32 x dest c order s) = load64 (mem s) dest"
  using assms
  by (simp add: PlatformCmpxchg_8_ia32_def insn_defs Let_def load64_pushed)

lemma cmpxchg8_ia32_mem:
  assumes "disjoint_slots dest 8 (regs s ESP - 8) 8"
  shows "mem (snd (PlatformCmpxchg_8_ia32 x dest c order s)) =
     (let m = store32 (store32 (mem s) (regs s ESP - 4) (regs s EBX)) (regs s ESP - 8) (regs s EDI)
      in if load64 (mem s) dest = c then store64 m dest x else m)"
  using assms
  by (simp add: PlatformCmpxchg_8_ia32_def insn_defs Let_def load64_pushed)

lemma store_jlong_ia32_mem:
  assumes "length (fpu s) < 8"
  shows "mem (Atomic_store_jlong_ia32 src v dest s) = store64 (store64 (mem s) src v) dest v"
  using assms by (simp add: Atomic_store_jlong_ia32_def insn_defs Let_def fild_fistp_exact)

lemma store_jlong_ia32_fpu:
  assumes "length (fpu s) < 8"
  shows "fpu (Atomic_store_jlong_ia32 src v dest s) = fpu s"
  using assms by (simp add: Atomic_store_jlong_ia32_def insn_defs Let_def)

lemma load_jlong_ia32_value:
  assumes "length (fpu s) < 8"
  shows "fst (Atomic_load_jlong_ia32 pdest src s) = load64 (mem s) src"
  using assms by (simp add: Atomic_load_jlong_ia32_def insn_defs Let_def fild_fistp_exact)

lemma load_jlong_ia32_mem:
  assumes "length (fpu s) < 8"
  shows "mem (snd (Atomic_load_jlong_ia32 pdest src s)) = store64 (mem s) pdest (load64 (mem s) src)"
  using assms by (simp add: Atomic_load_jlong_ia32_def insn_defs Let_def fild_fistp_exact)

lemma reference_os_contract: "backend_contract reference_os"
  by (simp add: backend_contract_def reference_os_def)

lemmas amd64_defs = PlatformAdd_4_add_and_fetch_amd64_def PlatformAdd_8_add_and_fetch_amd64_def
  Atomic_add_amd64_def Atomic_add_ptr_amd64_def Atomic_inc_amd64_def Atomic_inc_ptr_amd64_def
  Atomic_dec_amd64_def Atomic_dec_ptr_amd64_def Atomic_xchg_amd64_def Atomic_xchg_ptr_amd64_def
  PlatformCmpxchg_1_amd64_def PlatformCmpxchg_4_amd64_def PlatformCmpxchg_8_amd64_def
  add_using_helper_def cmpxchg_using_helper_def

lemma xchg_ptr_ia32_value: "fst (Atomic_xchg_ptr_ia32 n dest s) = load32 (mem s) dest"
  using xchg_ia32_value [of n dest s]
  by (simp add: Atomic_xchg_ptr_ia32_def split_def)

lemma xchg_ptr_ia32_mem: "mem (snd (Atomic_xchg_ptr_ia32 n dest s)) = store32 (mem s) dest n"
  using xchg_ia32_mem [of n dest s]
  by (simp add: Atomic_xchg_ptr_ia32_def split_def)

lemma store_ptr_64: "Atomic_store_ptr v (dest :: 64 word) m = store64 m dest v"
  by (simp add: Atomic_store_ptr_def store64_def)

lemma cmpxchg8_ia32_frame:
  assumes "\<not> in_slot b dest 8" "\<not> in_slot b (regs s ESP - 8) 8"
  shows "mem (snd (PlatformCmpxchg_8_ia32 x dest c order s)) b = mem s b"
  using assms
  by (simp add: PlatformCmpxchg_8_ia32_def insn_defs Let_def store_outside pushed_outside)

lemma load_jlong_ia32_frame:
  assumes "\<not> in_slot b pdest 8"
  shows "mem (snd (Atomic_load_jlong_ia32 pdest src s)) b = mem s b"
  using assms
  by (simp add: Atomic_load_jlong_ia32_def insn_defs Let_def store_outside split: list.split)

lemma store_jlong_ia32_frame:
  assumes "\<not> in_slot b dest 8" "\<not> in_slot b src 8"
  shows "mem (Atomic_store_jlong_ia32 src v dest s) b = mem s b"
  using assms
  by (simp add: Atomic_store_jlong_ia32_def insn_defs Let_def store_outside split: list.split)

lemma store_ptr_outside:
  "\<not> in_slot a dest (LENGTH('a) div 8) \<Longrightarrow> Atomic_store_ptr v (dest :: 'a::len word) m a = m a"
  by (simp add: Atomic_store_ptr_def in_slot_def write_bytes_outside)

section \<open>The interleaving invariant\<close>

lemma filter_length_update:
  "i < length xs \<Longrightarrow>
     length (filter P (xs[i := y])) + (if P (xs ! i) then 1 else 0) =
     length (filter P xs) + (if P y then 1 else 0)"
proof (induction xs arbitrary: i)
  case Nil
  then show ?case by simp
next
  case (Cons x xs)
  show ?case
  proof (cases i)
    case 0
    then show ?thesis by simp
  next
    case (Suc j)
    with Cons.prems have "j < length xs" by simp
    from Cons.IH [OF this] Suc show ?thesis by simp
  qed
qed

lemma list_all_update:
  "list_all P xs \<Longrightarrow> P y \<Longrightarrow> list_all P (xs[i := y])"
  by (induction xs arbitrary: i) (auto split: nat.split)

lemma block_length [simp]: "length (add_and_fetch_block d dest) = 5"
  by (simp add: add_and_fetch_block_def)

lemma block_nth:
  "add_and_fetch_block d dest ! 0 = mov EDX dest"
  "add_and_fetch_block d dest ! 1 = mov EAX d"
  "add_and_fetch_block d dest ! 2 = mov_rr ECX EAX"
  "add_and_fetch_block d dest ! 3 = lock_xadd EDX EAX"
  "add_and_fetch_block d dest ! 4 = add_rr EAX ECX"
  "add_and_fetch_block d dest ! Suc 0 = mov EAX d"
  by (simp_all add: add_and_fetch_block_def)

lemma thread_step_at:
  assumes "i < length (threads g)" "threads g ! i = (pc, c)" "pc < length block"
  shows "thread_step block i g =
     \<lparr>shared = mem ((block ! pc) (c\<lparr>mem := shared g\<rparr>)),
      threads = (threads g)[i := (Suc pc, (block ! pc) (c\<lparr>mem := shared g\<rparr>))]\<rparr>"
  using assms by (simp add: thread_step_def Let_def)

lemma step_one_instruction:
  assumes inv: "sys_inv v0 dest g"
    and i: "i < length (threads g)"
    and t: "threads g ! i = (pc, c)"
    and pc: "pc < 5"
    and ok': "thread_ok dest (Suc pc, (add_and_fetch_block 1 dest ! pc) (c\<lparr>mem := shared g\<rparr>))"
    and val': "load32 (mem ((add_and_fetch_block 1 dest ! pc) (c\<lparr>mem := shared g\<rparr>))) dest =
       load32 (shared g) dest + (if pc = 3 then 1 else 0)"
  shows "sys_inv v0 dest (thread_step (add_and_fetch_block 1 dest) i g)"
proof -
  let ?c' = "(add_and_fetch_block 1 dest ! pc) (c\<lparr>mem := shared g\<rparr>)"
  let ?ts = "(threads g)[i := (Suc pc, ?c')]"
  from inv have all: "list_all (thread_ok dest) (threads g)"
    and val: "load32 (shared g) dest = v0 + of_nat (adds_done g)"
    by (simp_all add: sys_inv_def)
  have step: "thread_step (add_and_fetch_block 1 dest) i g = \<lparr>shared = mem ?c', threads = ?ts\<rparr>"
    using i t pc by (intro thread_step_at) simp_all
  have all': "list_all (thread_ok dest) ?ts"
    using all ok' by (rule list_all_update)
  have upd: "length (filter (\<lambda>t. 4 \<le> fst t) ?ts) + (if 4 \<le> pc then 1 else 0)
      = adds_done g + (if 3 \<le> pc then 1 else 0)"
    using filter_length_update [OF i, of "\<lambda>t. 4 \<le> fst t" "(Suc pc, ?c')"] t
    by (simp add: adds_done_def Suc_le_eq less_eq_Suc_le)
  have "pc < 3 \<or> pc = 3 \<or> 4 \<le> pc" by arith
  then have cnt: "length (filter (\<lambda>t. 4 \<le> fst t) ?ts) = adds_done g + (if pc = 3 then 1 else 0)"
  proof (elim disjE)
    assume "pc < 3"
    with upd show ?thesis by simp
  next
    assume "pc = 3"
    with upd show ?thesis by simp
  next
    assume "4 \<le> pc"
    with upd show ?thesis by simp
  qed
  show ?thesis
    unfolding step sys_inv_def
    using all' val val' cnt by (simp add: adds_done_def)
qed

lemma step_keeps_inv:
  assumes inv: "sys_inv v0 dest g"
  shows "sys_inv v0 dest (thread_step (add_and_fetch_block 1 dest) i g)"
proof (cases "i < length (threads g)")
  case False
  with inv show ?thesis by (simp add: thread_step_def)
next
  case i: True
  obtain pc c where t: "threads g ! i = (pc, c)" by (cases "threads g ! i")
  from inv have all: "list_all (thread_ok dest) (threads g)"
    by (simp add: sys_inv_def)
  from all i have ok: "thread_ok dest (pc, c)"
    using t by (metis list_all_length)
  then have "pc = 0 \<or> pc = 1 \<or> pc = 2 \<or> pc = 3 \<or> pc = 4 \<or> pc = 5"
    by (auto simp: thread_ok_def)
  then show ?thesis
  proof (elim disjE)
    assume "pc = 5"
    with inv i t show ?thesis by (simp add: thread_step_def)
  next
    assume pc: "pc = 0"
    show ?thesis
      using inv i t unfolding pc
      by (rule step_one_instruction) (simp_all add: block_nth thread_ok_def mov_def set_reg_def)
  next
    assume pc: "pc = 1"
    show ?thesis
      using inv i t unfolding pc
      by (rule step_one_instruction)
        (use ok pc in \<open>simp_all add: block_nth thread_ok_def mov_def set_reg_def\<close>)
  next
    assume pc: "pc = 2"
    show ?thesis
      using inv i t unfolding pc
      by (rule step_one_instruction)
        (use ok pc in \<open>simp_all add: block_nth thread_ok_def mov_rr_def set_reg_def\<close>)
  next
    assume pc: "pc = 3"
    show ?thesis
      using inv i t unfolding pc
      by (rule step_one_instruction)
        (use ok pc in \<open>simp_all add: block_nth thread_ok_def lock_xadd_def set_reg_def Let_def\<close>)
  next
    assume pc: "pc = 4"
    show ?thesis
      using inv i t unfolding pc
      by (rule step_one_instruction)
        (simp_all add: block_nth thread_ok_def add_rr_def set_reg_def)
  qed
qed

lemma run_keeps_inv:
  "sys_inv v0 dest g \<Longrightarrow> sys_inv v0 dest (run_schedule (add_and_fetch_block 1 dest) sched g)"
  unfolding run_schedule_def
  by (induction sched arbitrary: g) (simp_all add: step_keeps_inv)

lemma start_inv: "sys_inv (load32 m dest) dest (start_system m cpus)"
  by (simp add: sys_inv_def start_system_def adds_done_def thread_ok_def list_all_iff)

lemma length_threads_step [simp]: "length (threads (thread_step block i g)) = length (threads g)"
  by (simp add: thread_step_def Let_def split_def)

lemma length_threads_run [simp]:
  "length (threads (run_schedule block sched g)) = length (threads g)"
  unfolding run_schedule_def by (induction sched arbitrary: g) simp_all

lemma pc_after_step:
  assumes "i < length (threads g)"
  shows "fst (threads (thread_step block j g) ! i) =
     (if i = j \<and> fst (threads g ! i) < length block
      then Suc (fst (threads g ! i)) else fst (threads g ! i))"
  using assms by (simp add: thread_step_def Let_def split_def)

lemma pc_after_run:
  assumes "i < length (threads g)" "fst (threads g ! i) \<le> length block"
  shows "fst (threads (run_schedule block sched g) ! i) =
     min (length block) (fst (threads g ! i) + count_list sched i)"
  using assms unfolding run_schedule_def
proof (induction sched arbitrary: g)
  case Nil
  then show ?case by simp
next
  case (Cons j sched)
  have len: "i < length (threads (thread_step block j g))" using Cons.prems by simp
  have le: "fst (threads (thread_step block j g) ! i) \<le> length block"
    using Cons.prems by (auto simp: pc_after_step)
  show ?case
    using Cons.IH [OF len le] Cons.prems
    by (auto simp: pc_after_step min_def)
qed

lemma returned_when_scheduled:
  assumes "\<And>i. i < length cpus \<Longrightarrow> length block \<le> count_list sched i"
  shows "all_returned block (run_schedule block sched (start_system m cpus))"
proof -
  have "fst (threads (run_schedule block sched (start_system m cpus)) ! i) = length block"
    if "i < length cpus" for i
    using that assms [OF that]
    by (subst pc_after_run) (simp_all add: start_system_def)
  then show ?thesis
    by (simp add: all_returned_def list_all_length start_system_def)
qed

lemma adds_done_le: "adds_done g \<le> length (threads g)"
  by (simp add: adds_done_def)

lemma adds_done_all:
  "all_returned (add_and_fetch_block d dest) g \<Longrightarrow> adds_done g = length (threads g)"
  by (simp add: all_returned_def adds_done_def list_all_iff filter_id_conv)

lemma slot_counts_adds:
  "load32 (shared (run_schedule (add_and_fetch_block 1 dest) sched (start_system m cpus))) dest
     = load32 m dest
       + of_nat (adds_done (run_schedule (add_and_fetch_block 1 dest) sched (start_system m cpus)))"
  using run_keeps_inv [OF start_inv [of m dest cpus], of sched]
  by (simp add: sys_inv_def)

text \<open>One caller alone, stepped through the block, does what the function does.\<close>

lemma single_caller_is_add:
  "shared (run_schedule (add_and_fetch_block d dest) [0, 0, 0, 0, 0] (start_system m [c]))
     = mem (snd (Atomic_add_ia32 d dest (c\<lparr>mem := m\<rparr>)))"
  by (simp add: run_schedule_def start_system_def thread_step_def Atomic_add_ia32_def
      PlatformAdd_4_add_and_fetch_ia32_def insn_defs Let_def)

lemma count_list_concat_replicate:
  "count_list (concat (replicate k xs)) i = k * count_list xs i"
  by (induction k) (simp_all add: count_list_append)

lemma count_list_upt: "count_list [0..<n] i = (if i < n then 1 else 0)"
  by (induction n) (auto simp: count_list_append)

section \<open>The claims\<close>

text \<open>
  C10: a 2-byte (\<^verbatim>\<open>jshort\<close>) store exists at the interface, in both builds: it is a
  plain assignment of the two bytes at \<open>dest\<close>, after which \<^verbatim>\<open>*dest\<close> reads as the
  stored value. Stated for 32-bit and for 64-bit addresses.
\<close>

theorem Atomic_store_jshort_assigns:
  "Atomic_store_jshort v (dest32 :: 32 word) m32 = store16 m32 dest32 v
   \<and> load16 (Atomic_store_jshort v dest32 m32) dest32 = v
   \<and> Atomic_store_jshort v (dest64 :: 64 word) m64 = store16 m64 dest64 v
   \<and> load16 (Atomic_store_jshort v dest64 m64) dest64 = v"
  by (simp add: Atomic_store_jshort_def)

text \<open>
  C1: at every width (1, 4 and 8 bytes) compare-exchange returns the value held at
  \<^verbatim>\<open>*dest\<close> before the call; when that value equals \<open>compare_value\<close> the slot
  holds \<open>exchange_value\<close> afterwards, otherwise it is unchanged. In the narrow build
  the 8-byte path splits both operands into halves for \<^verbatim>\<open>cmpxchg8b\<close> and saves two
  registers on the stack, so the slot must not lie in the 8 bytes below the stack
  pointer. In the wide build the result is that of the entry point, which is held to
  its contract.
\<close>

theorem cmpxchg_returns_prior_value:
  "fst (PlatformCmpxchg_1_ia32 x1 dest c1 order s) = load8 (mem s) dest
   \<and> (if load8 (mem s) dest = c1
      then load8 (mem (snd (PlatformCmpxchg_1_ia32 x1 dest c1 order s))) dest = x1
      else mem (snd (PlatformCmpxchg_1_ia32 x1 dest c1 order s)) = mem s)
   \<and> fst (PlatformCmpxchg_4_ia32 x4 dest c4 order s) = load32 (mem s) dest
   \<and> (if load32 (mem s) dest = c4
      then load32 (mem (snd (PlatformCmpxchg_4_ia32 x4 dest c4 order s))) dest = x4
      else mem (snd (PlatformCmpxchg_4_ia32 x4 dest c4 order s)) = mem s)
   \<and> (disjoint_slots dest 8 (regs s ESP - 8) 8 \<longrightarrow>
        fst (PlatformCmpxchg_8_ia32 x8 dest c8 order s) = load64 (mem s) dest
      \<and> load64 (mem (snd (PlatformCmpxchg_8_ia32 x8 dest c8 order s))) dest =
          (if load64 (mem s) dest = c8 then x8 else load64 (mem s) dest))
   \<and> (backend_contract os \<longrightarrow>
        PlatformCmpxchg_1_amd64 os x1 p c1 order m =
          (load8 m p, if load8 m p = c1 then store8 m p x1 else m)
      \<and> PlatformCmpxchg_4_amd64 os x4 p c4 order m =
          (load32 m p, if load32 m p = c4 then store32 m p x4 else m)
      \<and> PlatformCmpxchg_8_amd64 os x8 p c8 order m =
          (load64 m p, if load64 m p = c8 then store64 m p x8 else m))"
proof (intro conjI impI)
  show "fst (PlatformCmpxchg_1_ia32 x1 dest c1 order s) = load8 (mem s) dest"
    by (rule cmpxchg1_ia32_value)
  show "if load8 (mem s) dest = c1
      then load8 (mem (snd (PlatformCmpxchg_1_ia32 x1 dest c1 order s))) dest = x1
      else mem (snd (PlatformCmpxchg_1_ia32 x1 dest c1 order s)) = mem s"
    by (simp add: cmpxchg1_ia32_mem)
  show "fst (PlatformCmpxchg_4_ia32 x4 dest c4 order s) = load32 (mem s) dest"
    by (rule cmpxchg4_ia32_value)
  show "if load32 (mem s) dest = c4
      then load32 (mem (snd (PlatformCmpxchg_4_ia32 x4 dest c4 order s))) dest = x4
      else mem (snd (PlatformCmpxchg_4_ia32 x4 dest c4 order s)) = mem s"
    by (simp add: cmpxchg4_ia32_mem)
next
  assume d: "disjoint_slots dest 8 (regs s ESP - 8) 8"
  then show "fst (PlatformCmpxchg_8_ia32 x8 dest c8 order s) = load64 (mem s) dest"
    by (rule cmpxchg8_ia32_value)
  show "load64 (mem (snd (PlatformCmpxchg_8_ia32 x8 dest c8 order s))) dest =
          (if load64 (mem s) dest = c8 then x8 else load64 (mem s) dest)"
    using d by (simp add: cmpxchg8_ia32_mem load64_pushed Let_def)
next
  assume b: "backend_contract os"
  show "PlatformCmpxchg_1_amd64 os x1 p c1 order m =
          (load8 m p, if load8 m p = c1 then store8 m p x1 else m)"
    using b by (simp add: backend_contract_def amd64_defs)
  show "PlatformCmpxchg_4_amd64 os x4 p c4 order m =
          (load32 m p, if load32 m p = c4 then store32 m p x4 else m)"
    using b by (simp add: backend_contract_def amd64_defs)
  show "PlatformCmpxchg_8_amd64 os x8 p c8 order m =
          (load64 m p, if load64 m p = c8 then store64 m p x8 else m)"
    using b by (simp add: backend_contract_def amd64_defs)
qed


lemma slot_at_call_disjoint:
  "disjoint_slots (0x1000 :: 32 word) 8 (regs x86_at_call ESP - 8) 8"
  by (simp add: disjoint_slots_def in_slot_def x86_at_call_def slot_unfold)

theorem cmpxchg_returns_prior_value_witness:
  "disjoint_slots (0x1000 :: 32 word) 8 (regs x86_at_call ESP - 8) 8
   \<and> backend_contract reference_os
   \<and> fst (PlatformCmpxchg_8_ia32 20 0x1000 10 ()
        (x86_at_call\<lparr>mem := store64 (mem x86_at_call) 0x1000 10\<rparr>)) = 10
   \<and> load64 (mem (snd (PlatformCmpxchg_8_ia32 20 0x1000 10 ()
        (x86_at_call\<lparr>mem := store64 (mem x86_at_call) 0x1000 10\<rparr>)))) 0x1000 = 20
   \<and> fst (PlatformCmpxchg_8_ia32 20 0x1000 10 ()
        (x86_at_call\<lparr>mem := store64 (mem x86_at_call) 0x1000 20\<rparr>)) = 20
   \<and> load64 (mem (snd (PlatformCmpxchg_8_ia32 20 0x1000 10 ()
        (x86_at_call\<lparr>mem := store64 (mem x86_at_call) 0x1000 20\<rparr>)))) 0x1000 = 20
   \<and> fst (PlatformCmpxchg_4_amd64 reference_os 20 0x1000 10 () (store32 (\<lambda>_. 0) 0x1000 10)) = 10"
proof -
  have d: "disjoint_slots (0x1000 :: 32 word) 8
      (regs (x86_at_call\<lparr>mem := m\<rparr>) ESP - 8) 8" for m
    using slot_at_call_disjoint by simp
  note t = cmpxchg_returns_prior_value [where dest = "0x1000" and ?x8.0 = 20 and ?c8.0 = 10
      and order = "()" and os = reference_os and ?x4.0 = 20 and ?c4.0 = 10 and p = "0x1000"]
  show ?thesis
    using t [where s = "x86_at_call\<lparr>mem := store64 (mem x86_at_call) 0x1000 10\<rparr>"
        and m = "store32 (\<lambda>_. 0) 0x1000 10"]
      t [where s = "x86_at_call\<lparr>mem := store64 (mem x86_at_call) 0x1000 20\<rparr>"]
      d reference_os_contract slot_at_call_disjoint
    by simp
qed

text \<open>
  C2: a store followed by a load of the same slot gives back the stored value, bit for
  bit, at 1, 4 and 8 bytes. The 1- and 4-byte loads are plain reads. In the wide build
  the 8-byte store and load are plain accesses. In the narrow build both go through the
  x87 (\<^verbatim>\<open>fild\<close>, \<^verbatim>\<open>fistp\<close>); the round trip is exact under every rounding-control
  setting, given a free x87 register at the call, which the calling convention
  provides.
\<close>

theorem store_then_load_round_trip:
  "plain_load_jbyte d32 (Atomic_store_jbyte v1 (d32 :: 32 word) m32) = v1
   \<and> plain_load_jbyte d64 (Atomic_store_jbyte v1 (d64 :: 64 word) m64) = v1
   \<and> plain_load_jint d32 (Atomic_store_jint v4 d32 m32) = v4
   \<and> plain_load_jint d64 (Atomic_store_jint v4 d64 m64) = v4
   \<and> Atomic_load_jlong_amd64 d64 (Atomic_store_jlong_amd64 v8 d64 m64) = v8
   \<and> (length (fpu s) < 8 \<longrightarrow>
        fst (Atomic_load_jlong_ia32 pdest d32 (Atomic_store_jlong_ia32 src v8 d32 s)) = v8)"
proof (intro conjI impI)
  assume free: "length (fpu s) < 8"
  then have "length (fpu (Atomic_store_jlong_ia32 src v8 d32 s)) < 8"
    by (simp add: store_jlong_ia32_fpu)
  then show "fst (Atomic_load_jlong_ia32 pdest d32 (Atomic_store_jlong_ia32 src v8 d32 s)) = v8"
    using free by (simp add: load_jlong_ia32_value store_jlong_ia32_mem)
qed (simp_all add: plain_load_jbyte_def plain_load_jint_def Atomic_store_jbyte_def
    Atomic_store_jint_def Atomic_load_jlong_amd64_def Atomic_store_jlong_amd64_def)

theorem store_then_load_round_trip_witness:
  "length (fpu x86_at_call) < 8
   \<and> fst (Atomic_load_jlong_ia32 0x6000 0x1000
        (Atomic_store_jlong_ia32 0x6008 0x1122334455667788 0x1000 x86_at_call))
     = 0x1122334455667788"
proof -
  have free: "length (fpu x86_at_call) < 8"
    by (simp add: x86_at_call_def)
  with store_then_load_round_trip [where s = x86_at_call and pdest = "0x6000" and ?d32.0 = "0x1000"
      and src = "0x6008" and ?v8.0 = "0x1122334455667788"]
  show ?thesis by simp
qed

text \<open>
  C3: after \<^verbatim>\<open>*dest = v0\<close>, \<^verbatim>\<open>add(d, dest)\<close> returns \<open>v0 + d\<close> and leaves
  \<open>v0 + d\<close> in the slot, with two's-complement wrap-around. The narrow build does it
  with \<^verbatim>\<open>lock xadd\<close>, which yields the old value, and adds \<open>d\<close> again in a register;
  the wide build returns what the add entry point returns, which is held to its
  contract, at 4 bytes and at pointer width.
\<close>

theorem add_returns_sum:
  "fst (Atomic_add_ia32 d dest (s\<lparr>mem := Atomic_store_jint v0 dest (mem s)\<rparr>)) = v0 + d
   \<and> load32 (mem (snd (Atomic_add_ia32 d dest (s\<lparr>mem := Atomic_store_jint v0 dest (mem s)\<rparr>)))) dest
     = v0 + d
   \<and> (backend_contract os \<longrightarrow>
        fst (Atomic_add_amd64 os d p (Atomic_store_jint v0 p m)) = v0 + d
      \<and> load32 (snd (Atomic_add_amd64 os d p (Atomic_store_jint v0 p m))) p = v0 + d
      \<and> fst (Atomic_add_ptr_amd64 os dp p (Atomic_store_ptr w0 p m)) = w0 + dp
      \<and> load64 (snd (Atomic_add_ptr_amd64 os dp p (Atomic_store_ptr w0 p m))) p = w0 + dp)"
proof (intro conjI impI)
  show "fst (Atomic_add_ia32 d dest (s\<lparr>mem := Atomic_store_jint v0 dest (mem s)\<rparr>)) = v0 + d"
    by (simp add: Atomic_add_ia32_def add_and_fetch_ia32_value Atomic_store_jint_def)
  show "load32 (mem (snd (Atomic_add_ia32 d dest (s\<lparr>mem := Atomic_store_jint v0 dest (mem s)\<rparr>)))) dest
     = v0 + d"
    by (simp add: Atomic_add_ia32_def add_and_fetch_ia32_mem Atomic_store_jint_def)
next
  assume b: "backend_contract os"
  then show "fst (Atomic_add_amd64 os d p (Atomic_store_jint v0 p m)) = v0 + d"
    by (simp add: backend_contract_def amd64_defs Atomic_store_jint_def)
  from b show "load32 (snd (Atomic_add_amd64 os d p (Atomic_store_jint v0 p m))) p = v0 + d"
    by (simp add: backend_contract_def amd64_defs Atomic_store_jint_def)
  from b show "fst (Atomic_add_ptr_amd64 os dp p (Atomic_store_ptr w0 p m)) = w0 + dp"
    by (simp add: backend_contract_def amd64_defs store_ptr_64)
  from b show "load64 (snd (Atomic_add_ptr_amd64 os dp p (Atomic_store_ptr w0 p m))) p = w0 + dp"
    by (simp add: backend_contract_def amd64_defs store_ptr_64)
qed

theorem add_returns_sum_witness:
  "backend_contract reference_os
   \<and> fst (Atomic_add_amd64 reference_os 1 0x1000 (Atomic_store_jint 0x7FFFFFFF 0x1000 (\<lambda>_. 0)))
     = 0x80000000
   \<and> load32 (snd (Atomic_add_amd64 reference_os 1 0x1000
        (Atomic_store_jint 0x7FFFFFFF 0x1000 (\<lambda>_. 0)))) 0x1000 = 0x80000000
   \<and> fst (Atomic_add_ia32 (- 1) 0x1000
        (x86_at_call\<lparr>mem := Atomic_store_jint 0 0x1000 (mem x86_at_call)\<rparr>)) = 0xFFFFFFFF"
  using add_returns_sum [where os = reference_os and d = 1 and p = "0x1000" and ?v0.0 = "0x7FFFFFFF"
      and m = "\<lambda>_. 0"]
    add_returns_sum [where d = "- 1" and dest = "0x1000" and ?v0.0 = 0 and s = x86_at_call]
    reference_os_contract
  by simp

text \<open>
  C4: \<^verbatim>\<open>inc(dest)\<close> leaves the state that \<^verbatim>\<open>add(1, dest)\<close> leaves when its result
  is dropped, and \<^verbatim>\<open>dec(dest)\<close> the state of \<^verbatim>\<open>add(-1, dest)\<close>, in both builds. In
  the narrow build the state compared is what the caller can see: memory, the x87
  state and the preserved registers.
\<close>

theorem inc_dec_as_add:
  "caller_view (Atomic_inc_ia32 dest s) = caller_view (snd (Atomic_add_ia32 1 dest s))
   \<and> caller_view (Atomic_dec_ia32 dest s) = caller_view (snd (Atomic_add_ia32 (- 1) dest s))
   \<and> caller_view (Atomic_inc_ptr_ia32 dest s) = caller_view (snd (Atomic_add_ia32 1 dest s))
   \<and> caller_view (Atomic_dec_ptr_ia32 dest s) = caller_view (snd (Atomic_add_ia32 (- 1) dest s))
   \<and> Atomic_inc_amd64 os p m = snd (Atomic_add_amd64 os 1 p m)
   \<and> Atomic_dec_amd64 os p m = snd (Atomic_add_amd64 os (- 1) p m)
   \<and> Atomic_inc_ptr_amd64 os p m = snd (Atomic_add_ptr_amd64 os 1 p m)
   \<and> Atomic_dec_ptr_amd64 os p m = snd (Atomic_add_ptr_amd64 os (- 1) p m)"
  by (simp add: caller_view_def Atomic_inc_ptr_ia32_def Atomic_dec_ptr_ia32_def
      Atomic_inc_ia32_def Atomic_dec_ia32_def Atomic_add_ia32_def
      PlatformAdd_4_add_and_fetch_ia32_def insn_defs Let_def
      Atomic_inc_amd64_def Atomic_dec_amd64_def Atomic_inc_ptr_amd64_def Atomic_dec_ptr_amd64_def)

text \<open>
  C5: \<^verbatim>\<open>xchg(n, dest)\<close> and the pointer overloads return the value held at
  \<^verbatim>\<open>*dest\<close> before the call and leave \<open>n\<close> there. The wide build returns what the
  exchange entry point returns, which is held to its contract.
\<close>

theorem xchg_returns_prior_value:
  "fst (Atomic_xchg_ia32 n dest s) = load32 (mem s) dest
   \<and> load32 (mem (snd (Atomic_xchg_ia32 n dest s))) dest = n
   \<and> fst (Atomic_xchg_ptr_ia32 np dest s) = load32 (mem s) dest
   \<and> load32 (mem (snd (Atomic_xchg_ptr_ia32 np dest s))) dest = np
   \<and> (backend_contract os \<longrightarrow>
        fst (Atomic_xchg_amd64 os n p m) = load32 m p
      \<and> load32 (snd (Atomic_xchg_amd64 os n p m)) p = n
      \<and> fst (Atomic_xchg_ptr_amd64 os nq p m) = load64 m p
      \<and> load64 (snd (Atomic_xchg_ptr_amd64 os nq p m)) p = nq)"
proof (intro conjI impI)
  assume b: "backend_contract os"
  then show "fst (Atomic_xchg_amd64 os n p m) = load32 m p"
    by (simp add: backend_contract_def amd64_defs)
  from b show "load32 (snd (Atomic_xchg_amd64 os n p m)) p = n"
    by (simp add: backend_contract_def amd64_defs)
  from b show "fst (Atomic_xchg_ptr_amd64 os nq p m) = load64 m p"
    by (simp add: backend_contract_def amd64_defs)
  from b show "load64 (snd (Atomic_xchg_ptr_amd64 os nq p m)) p = nq"
    by (simp add: backend_contract_def amd64_defs)
qed (simp_all add: xchg_ia32_value xchg_ia32_mem xchg_ptr_ia32_value xchg_ptr_ia32_mem)

theorem xchg_returns_prior_value_witness:
  "backend_contract reference_os
   \<and> fst (Atomic_xchg_ptr_amd64 reference_os 0xB000 0x1000 (store64 (\<lambda>_. 0) 0x1000 0xA000)) = 0xA000
   \<and> load64 (snd (Atomic_xchg_ptr_amd64 reference_os 0xB000 0x1000
        (store64 (\<lambda>_. 0) 0x1000 0xA000))) 0x1000 = 0xB000
   \<and> fst (Atomic_xchg_ptr_ia32 0xB000 0x1000
        (x86_at_call\<lparr>mem := store32 (mem x86_at_call) 0x1000 0xA000\<rparr>)) = 0xA000"
  using xchg_returns_prior_value [where os = reference_os and nq = "0xB000" and p = "0x1000"
      and m = "store64 (\<lambda>_. 0) 0x1000 0xA000" and np = "0xB000" and dest = "0x1000"
      and s = "x86_at_call\<lparr>mem := store32 (mem x86_at_call) 0x1000 0xA000\<rparr>"]
    reference_os_contract
  by simp

text \<open>
  C6: the \<open>order\<close> argument of compare-exchange has no effect: two calls that differ
  only in it return the same value and leave the same state, at every width and in
  both builds, whatever the entry points of the wide build do.
\<close>

theorem cmpxchg_order_is_ignored:
  "PlatformCmpxchg_1_ia32 x1 dest c1 o1 s = PlatformCmpxchg_1_ia32 x1 dest c1 o2 s
   \<and> PlatformCmpxchg_4_ia32 x4 dest c4 o1 s = PlatformCmpxchg_4_ia32 x4 dest c4 o2 s
   \<and> PlatformCmpxchg_8_ia32 x8 dest c8 o1 s = PlatformCmpxchg_8_ia32 x8 dest c8 o2 s
   \<and> PlatformCmpxchg_1_amd64 os x1 p c1 o1 m = PlatformCmpxchg_1_amd64 os x1 p c1 o2 m
   \<and> PlatformCmpxchg_4_amd64 os x4 p c4 o1 m = PlatformCmpxchg_4_amd64 os x4 p c4 o2 m
   \<and> PlatformCmpxchg_8_amd64 os x8 p c8 o1 m = PlatformCmpxchg_8_amd64 os x8 p c8 o2 m"
  by (simp add: PlatformCmpxchg_1_ia32_def PlatformCmpxchg_4_ia32_def PlatformCmpxchg_8_ia32_def
      PlatformCmpxchg_1_amd64_def PlatformCmpxchg_4_amd64_def PlatformCmpxchg_8_amd64_def)

text \<open>
  C9: every operation changes at most its destination slot. A byte outside the slot
  at \<open>dest\<close> is left as it was by each store, by add, inc, dec, exchange and
  compare-exchange. The narrow 8-byte paths also write stack storage of their own,
  which is no location of the caller's: the load writes its local temporary (at
  \<open>pdest\<close>) and nothing else, the store holds its by-value parameter (at \<open>psrc\<close>),
  and the 8-byte compare-exchange saves two registers in the 8 bytes below the stack
  pointer. The wide 8-byte load is a read and returns no memory. The delegated
  operations of the wide build are held to the entry points' contract.
\<close>

theorem operations_touch_only_their_slot:
  fixes a dest :: "'a::len word" and b d :: "32 word" and q p :: "64 word"
  shows
  "(\<not> in_slot a dest 1 \<longrightarrow> Atomic_store_jbyte v1 dest m a = m a)
   \<and> (\<not> in_slot a dest 2 \<longrightarrow> Atomic_store_jshort v2 dest m a = m a)
   \<and> (\<not> in_slot a dest 4 \<longrightarrow> Atomic_store_jint v4 dest m a = m a)
   \<and> (\<not> in_slot a dest (LENGTH('a) div 8) \<longrightarrow> Atomic_store_ptr vp dest m a = m a)
   \<and> (\<not> in_slot q p 8 \<longrightarrow> Atomic_store_jlong_amd64 v8 p m64 q = m64 q)
   \<and> (\<not> in_slot b pdest 8 \<longrightarrow> mem (snd (Atomic_load_jlong_ia32 pdest src s)) b = mem s b)
   \<and> (\<not> in_slot b d 8 \<and> \<not> in_slot b psrc 8 \<longrightarrow>
        mem (Atomic_store_jlong_ia32 psrc v8 d s) b = mem s b)
   \<and> (\<not> in_slot b d 4 \<longrightarrow>
        mem (snd (Atomic_add_ia32 v4 d s)) b = mem s b
      \<and> mem (Atomic_inc_ia32 d s) b = mem s b
      \<and> mem (Atomic_dec_ia32 d s) b = mem s b
      \<and> mem (snd (Atomic_xchg_ia32 v4 d s)) b = mem s b
      \<and> mem (snd (Atomic_xchg_ptr_ia32 v4 d s)) b = mem s b
      \<and> mem (snd (PlatformCmpxchg_4_ia32 v4 d c4 order s)) b = mem s b)
   \<and> (\<not> in_slot b d 1 \<longrightarrow> mem (snd (PlatformCmpxchg_1_ia32 v1 d c1 order s)) b = mem s b)
   \<and> (\<not> in_slot b d 8 \<and> \<not> in_slot b (regs s ESP - 8) 8 \<longrightarrow>
        mem (snd (PlatformCmpxchg_8_ia32 v8 d c8 order s)) b = mem s b)
   \<and> (backend_contract os \<and> \<not> in_slot q p 4 \<longrightarrow>
        snd (Atomic_add_amd64 os v4 p m64) q = m64 q
      \<and> Atomic_inc_amd64 os p m64 q = m64 q
      \<and> Atomic_dec_amd64 os p m64 q = m64 q
      \<and> snd (Atomic_xchg_amd64 os v4 p m64) q = m64 q
      \<and> snd (PlatformCmpxchg_4_amd64 os v4 p c4 order m64) q = m64 q)
   \<and> (backend_contract os \<and> \<not> in_slot q p 8 \<longrightarrow>
        snd (Atomic_add_ptr_amd64 os v8 p m64) q = m64 q
      \<and> Atomic_inc_ptr_amd64 os p m64 q = m64 q
      \<and> Atomic_dec_ptr_amd64 os p m64 q = m64 q
      \<and> snd (Atomic_xchg_ptr_amd64 os v8 p m64) q = m64 q
      \<and> snd (PlatformCmpxchg_8_amd64 os v8 p c8 order m64) q = m64 q)
   \<and> (backend_contract os \<and> \<not> in_slot q p 1 \<longrightarrow>
        snd (PlatformCmpxchg_1_amd64 os v1 p c1 order m64) q = m64 q)"
proof (intro conjI impI; (elim conjE)?)
  show "Atomic_store_ptr vp dest m a = m a" if "\<not> in_slot a dest (LENGTH('a) div 8)"
    using that by (rule store_ptr_outside)
  show "mem (snd (Atomic_load_jlong_ia32 pdest src s)) b = mem s b" if "\<not> in_slot b pdest 8"
    using that by (rule load_jlong_ia32_frame)
  show "mem (Atomic_store_jlong_ia32 psrc v8 d s) b = mem s b"
    if "\<not> in_slot b d 8" "\<not> in_slot b psrc 8"
    using that by (rule store_jlong_ia32_frame)
  show "mem (snd (PlatformCmpxchg_8_ia32 v8 d c8 order s)) b = mem s b"
    if "\<not> in_slot b d 8" "\<not> in_slot b (regs s ESP - 8) 8"
    using that by (rule cmpxchg8_ia32_frame)
qed (simp_all add: Atomic_store_jbyte_def Atomic_store_jshort_def Atomic_store_jint_def
    Atomic_store_jlong_amd64_def store_outside Atomic_add_ia32_def add_and_fetch_ia32_mem
    inc_ia32_mem dec_ia32_mem xchg_ia32_mem xchg_ptr_ia32_mem cmpxchg4_ia32_mem
    cmpxchg1_ia32_mem backend_contract_def amd64_defs)

theorem operations_touch_only_their_slot_witness:
  "\<not> in_slot (0x2000 :: 32 word) 0x1000 8
   \<and> \<not> in_slot (0x2000 :: 32 word) 0x6000 8
   \<and> \<not> in_slot (0x2000 :: 32 word) 0x6008 8
   \<and> \<not> in_slot (0x2000 :: 32 word) (regs x86_at_call ESP - 8) 8
   \<and> \<not> in_slot (0x2000 :: 64 word) 0x1000 8
   \<and> backend_contract reference_os
   \<and> mem (snd (PlatformCmpxchg_8_ia32 1 0x1000 0 () x86_at_call)) 0x2000 = mem x86_at_call 0x2000
   \<and> mem (snd (Atomic_load_jlong_ia32 0x6000 0x1000 x86_at_call)) 0x2000 = mem x86_at_call 0x2000
   \<and> mem (Atomic_store_jlong_ia32 0x6008 1 0x1000 x86_at_call) 0x2000 = mem x86_at_call 0x2000
   \<and> mem (snd (Atomic_add_ia32 1 0x1000 x86_at_call)) 0x2000 = mem x86_at_call 0x2000
   \<and> snd (Atomic_add_ptr_amd64 reference_os 1 0x1000 (\<lambda>_. 0)) 0x2000 = 0
   \<and> snd (PlatformCmpxchg_1_amd64 reference_os 1 0x1000 0 () (\<lambda>_. 0)) 0x2000 = 0"
proof -
  have h32: "\<not> in_slot (0x2000 :: 32 word) 0x1000 8" "\<not> in_slot (0x2000 :: 32 word) 0x1000 4"
    "\<not> in_slot (0x2000 :: 32 word) 0x1000 2" "\<not> in_slot (0x2000 :: 32 word) 0x1000 1"
    "\<not> in_slot (0x2000 :: 32 word) 0x6000 8" "\<not> in_slot (0x2000 :: 32 word) 0x6008 8"
    "\<not> in_slot (0x2000 :: 32 word) (regs x86_at_call ESP - 8) 8"
    by (simp_all add: in_slot_def slot_unfold x86_at_call_def)
  have h64: "\<not> in_slot (0x2000 :: 64 word) 0x1000 8" "\<not> in_slot (0x2000 :: 64 word) 0x1000 4"
    "\<not> in_slot (0x2000 :: 64 word) 0x1000 1"
    by (simp_all add: in_slot_def slot_unfold)
  show ?thesis
    using operations_touch_only_their_slot [where a = "0x2000 :: 32 word" and dest = "0x1000"
        and b = "0x2000" and d = "0x1000" and pdest = "0x6000" and psrc = "0x6008"
        and s = x86_at_call and q = "0x2000" and p = "0x1000" and os = reference_os
        and ?m64.0 = "\<lambda>_. 0" and ?v8.0 = 1 and ?c8.0 = 0 and ?v1.0 = 1 and ?c1.0 = 0
        and ?v4.0 = 1 and order = "()" and src = "0x1000"]
      h32 h64 reference_os_contract
    by simp
qed

text \<open>
  C8, as amended: for any number of callers of \<^verbatim>\<open>add(1, dest)\<close> on a 4-byte slot
  that holds 0, and any interleaving of their instructions, the slot holds at every
  moment the number of locked adds executed so far, as a 32-bit value: no update is
  lost and no partial value shows. When all \<open>N\<close> callers have returned the slot holds
  \<open>N\<close> modulo \<open>2 ^ 32\<close>, which is \<open>N\<close> itself when \<open>N < 2 ^ 32\<close>. The schedule need not be
  complete, so the first statement covers every intermediate state an observer can
  read. The claim as written, exactly \<open>N\<close> for every \<open>N\<close>, fails when the count wraps:
  the counterexample runs \<open>2 ^ 32\<close> callers to completion and finds 0 in the slot.
\<close>

theorem concurrent_adds_all_counted:
  assumes "load32 m dest = 0"
  shows "load32 (shared (run_schedule (add_and_fetch_block 1 dest) sched (start_system m cpus))) dest
      = of_nat (adds_done (run_schedule (add_and_fetch_block 1 dest) sched (start_system m cpus)))
    \<and> adds_done (run_schedule (add_and_fetch_block 1 dest) sched (start_system m cpus))
      \<le> length cpus
    \<and> (all_returned (add_and_fetch_block 1 dest)
         (run_schedule (add_and_fetch_block 1 dest) sched (start_system m cpus)) \<longrightarrow>
       load32 (shared (run_schedule (add_and_fetch_block 1 dest) sched (start_system m cpus))) dest
         = of_nat (length cpus)
       \<and> (length cpus < 2 ^ 32 \<longrightarrow>
          unat (load32 (shared (run_schedule (add_and_fetch_block 1 dest) sched
            (start_system m cpus))) dest) = length cpus))"
proof -
  let ?g = "run_schedule (add_and_fetch_block 1 dest) sched (start_system m cpus)"
  have len: "length (threads ?g) = length cpus"
    by (simp add: start_system_def)
  have slot: "load32 (shared ?g) dest = of_nat (adds_done ?g)"
    using slot_counts_adds [of dest sched m cpus] assms by simp
  have le: "adds_done ?g \<le> length cpus"
    using adds_done_le [of ?g] len by simp
  have fin: "load32 (shared ?g) dest = of_nat (length cpus)"
    if "all_returned (add_and_fetch_block 1 dest) ?g"
    using adds_done_all [OF that] slot len by simp
  have "unat (load32 (shared ?g) dest) = length cpus"
    if "all_returned (add_and_fetch_block 1 dest) ?g" "length cpus < 2 ^ 32"
    using fin [OF that(1)] that(2) by (simp add: unat_of_nat)
  with slot le fin show ?thesis by blast
qed

theorem concurrent_adds_all_counted_witness:
  "load32 (store32 (\<lambda>_. 0) (0x1000 :: 32 word) 0) 0x1000 = 0
   \<and> all_returned (add_and_fetch_block 1 0x1000)
       (run_schedule (add_and_fetch_block 1 0x1000) [0, 1, 1, 0, 1, 1, 0, 0, 1, 0]
         (start_system (store32 (\<lambda>_. 0) 0x1000 0) [x86_at_call, x86_at_call]))
   \<and> load32 (shared (run_schedule (add_and_fetch_block 1 0x1000) [0, 1, 1, 0, 1, 1, 0, 0, 1, 0]
         (start_system (store32 (\<lambda>_. 0) 0x1000 0) [x86_at_call, x86_at_call]))) 0x1000 = 2"
proof -
  have z: "load32 (store32 (\<lambda>_. 0) (0x1000 :: 32 word) 0) 0x1000 = 0"
    by simp
  have "length (add_and_fetch_block 1 0x1000) \<le> count_list [0, 1, 1, 0, 1, 1, 0, 0, 1, 0] i"
    if "i < length [x86_at_call, x86_at_call]" for i
  proof -
    from that have "i = 0 \<or> i = 1" by auto
    then show ?thesis by auto
  qed
  then have r: "all_returned (add_and_fetch_block 1 0x1000)
       (run_schedule (add_and_fetch_block 1 0x1000) [0, 1, 1, 0, 1, 1, 0, 0, 1, 0]
         (start_system (store32 (\<lambda>_. 0) 0x1000 0) [x86_at_call, x86_at_call]))"
    by (rule returned_when_scheduled)
  from concurrent_adds_all_counted [OF z, of "[0, 1, 1, 0, 1, 1, 0, 0, 1, 0]"
      "[x86_at_call, x86_at_call]"] r
  have "load32 (shared (run_schedule (add_and_fetch_block 1 0x1000) [0, 1, 1, 0, 1, 1, 0, 0, 1, 0]
         (start_system (store32 (\<lambda>_. 0) 0x1000 0) [x86_at_call, x86_at_call]))) 0x1000
      = of_nat (length [x86_at_call, x86_at_call])"
    by blast
  then have "load32 (shared (run_schedule (add_and_fetch_block 1 0x1000) [0, 1, 1, 0, 1, 1, 0, 0, 1, 0]
         (start_system (store32 (\<lambda>_. 0) 0x1000 0) [x86_at_call, x86_at_call]))) 0x1000 = 2"
    by simp
  with z r show ?thesis by blast
qed

theorem concurrent_adds_wrap_counterexample:
  "length (threads wrapping_run) = 4294967296
   \<and> all_returned (add_and_fetch_block 1 0x1000) wrapping_run
   \<and> load32 (shared wrapping_run) 0x1000 = 0
   \<and> unat (load32 (shared wrapping_run) 0x1000) \<noteq> 4294967296"
proof -
  have len: "length (threads wrapping_run) = 4294967296"
    by (simp add: wrapping_run_def start_system_def)
  have r: "all_returned (add_and_fetch_block 1 0x1000) wrapping_run"
    unfolding wrapping_run_def
    by (rule returned_when_scheduled) (simp add: count_list_concat_replicate count_list_upt)
  have "load32 (shared wrapping_run) 0x1000 = 0 + of_nat (adds_done wrapping_run)"
    unfolding wrapping_run_def
    by (subst slot_counts_adds) simp
  also have "adds_done wrapping_run = 4294967296"
    using adds_done_all [OF r] len by simp
  finally have v: "load32 (shared wrapping_run) 0x1000 = 0"
    by simp
  from len r v show ?thesis by simp
qed

end
